theory Spec2Isabelle
  imports Complex_Main "HOL-Library.Multiset"
begin

section \<open>JavaScript numbers\<close>

text \<open>
  A TypeScript \<open>number\<close> is modelled as an exact real number or one of the three
  special values of the language: \<open>Infinity\<close>, \<open>-Infinity\<close> and \<open>NaN\<close>.
  The arithmetic below follows the operators of the language on these values
  (division by zero, \<open>Infinity - Infinity\<close>, \<open>0 * Infinity\<close>, comparisons with
  \<open>NaN\<close>). The operators \<open>js_add\<close>, \<open>js_mul\<close> and \<open>js_div\<close> compute the exact
  result on finite values; an equation proved with them is an equation of exact
  arithmetic. The rounding of a result to a double is \<open>binary64\<close> below, and
  \<open>double_add\<close> is the addition the program performs: the exact sum, rounded. The
  sign of zero is not modelled.
\<close>

datatype jsnum = Num real | PInf | NInf | NaN

text \<open>The operator \<open>+\<close> on numbers.\<close>

fun js_add :: "jsnum \<Rightarrow> jsnum \<Rightarrow> jsnum" where
  "js_add NaN _ = NaN"
| "js_add _ NaN = NaN"
| "js_add PInf NInf = NaN"
| "js_add NInf PInf = NaN"
| "js_add PInf _ = PInf"
| "js_add _ PInf = PInf"
| "js_add NInf _ = NInf"
| "js_add _ NInf = NInf"
| "js_add (Num a) (Num b) = Num (a + b)"

text \<open>The operator \<open>*\<close>: an infinity times zero is \<open>NaN\<close>.\<close>

fun js_mul :: "jsnum \<Rightarrow> jsnum \<Rightarrow> jsnum" where
  "js_mul NaN _ = NaN"
| "js_mul _ NaN = NaN"
| "js_mul (Num a) (Num b) = Num (a * b)"
| "js_mul PInf PInf = PInf"
| "js_mul PInf NInf = NInf"
| "js_mul NInf PInf = NInf"
| "js_mul NInf NInf = PInf"
| "js_mul PInf (Num b) = (if 0 < b then PInf else if b < 0 then NInf else NaN)"
| "js_mul NInf (Num b) = (if 0 < b then NInf else if b < 0 then PInf else NaN)"
| "js_mul (Num a) PInf = (if 0 < a then PInf else if a < 0 then NInf else NaN)"
| "js_mul (Num a) NInf = (if 0 < a then NInf else if a < 0 then PInf else NaN)"

text \<open>
  The operator \<open>/\<close>: a non-zero finite value over zero is an infinity, zero over
  zero and an infinity over an infinity are \<open>NaN\<close>, a finite value over an infinity
  is zero. Zero is read as positive zero.
\<close>

fun js_div :: "jsnum \<Rightarrow> jsnum \<Rightarrow> jsnum" where
  "js_div NaN _ = NaN"
| "js_div _ NaN = NaN"
| "js_div (Num a) (Num b) =
     (if b \<noteq> 0 then Num (a / b)
      else if 0 < a then PInf else if a < 0 then NInf else NaN)"
| "js_div (Num a) PInf = Num 0"
| "js_div (Num a) NInf = Num 0"
| "js_div PInf (Num b) = (if 0 \<le> b then PInf else NInf)"
| "js_div NInf (Num b) = (if 0 \<le> b then NInf else PInf)"
| "js_div PInf PInf = NaN"
| "js_div PInf NInf = NaN"
| "js_div NInf PInf = NaN"
| "js_div NInf NInf = NaN"

text \<open>The comparisons \<open>>\<close> and \<open>>=\<close>: false whenever an operand is \<open>NaN\<close>.\<close>

fun js_gt :: "jsnum \<Rightarrow> jsnum \<Rightarrow> bool" where
  "js_gt NaN _ = False"
| "js_gt _ NaN = False"
| "js_gt (Num a) (Num b) = (b < a)"
| "js_gt PInf PInf = False"
| "js_gt PInf _ = True"
| "js_gt NInf _ = False"
| "js_gt (Num a) PInf = False"
| "js_gt (Num a) NInf = True"

fun js_ge :: "jsnum \<Rightarrow> jsnum \<Rightarrow> bool" where
  "js_ge NaN _ = False"
| "js_ge _ NaN = False"
| "js_ge (Num a) (Num b) = (b \<le> a)"
| "js_ge PInf _ = True"
| "js_ge NInf NInf = True"
| "js_ge NInf _ = False"
| "js_ge (Num a) PInf = False"
| "js_ge (Num a) NInf = True"

text \<open>Strict equality \<open>===\<close> on numbers: \<open>NaN\<close> equals nothing, itself included.\<close>

fun js_seq :: "jsnum \<Rightarrow> jsnum \<Rightarrow> bool" where
  "js_seq NaN _ = False"
| "js_seq _ NaN = False"
| "js_seq a b = (a = b)"

text \<open>\<open>Math.max\<close> and \<open>Math.min\<close> of two arguments: \<open>NaN\<close> if either is.\<close>

fun js_max :: "jsnum \<Rightarrow> jsnum \<Rightarrow> jsnum" where
  "js_max NaN _ = NaN"
| "js_max _ NaN = NaN"
| "js_max a b = (if js_gt a b then a else b)"

fun js_min :: "jsnum \<Rightarrow> jsnum \<Rightarrow> jsnum" where
  "js_min NaN _ = NaN"
| "js_min _ NaN = NaN"
| "js_min a b = (if js_gt a b then b else a)"


subsection \<open>Rounding to a double\<close>

text \<open>
  A double is a multiple of \<open>2 powi (e - 52)\<close>, where \<open>e\<close> is the exponent of its
  binade: \<open>2 powi e\<close> is at most its magnitude, which is less than
  \<open>2 powi (e + 1)\<close>, and \<open>e\<close> lies between \<open>-1022\<close> and \<open>1023\<close>. \<open>binade x\<close>
  searches that exponent upwards from \<open>-1022\<close>, where it stays for the subnormal
  values, and stops at \<open>1023\<close>.
\<close>

fun find_exp :: "nat \<Rightarrow> real \<Rightarrow> int \<Rightarrow> int" where
  "find_exp 0 x e = e"
| "find_exp (Suc n) x e = (if 2 powi (e + 1) \<le> x then find_exp n x (e + 1) else e)"

definition binade :: "real \<Rightarrow> int" where
  "binade x = find_exp 2045 \<bar>x\<bar> (- 1022)"

text \<open>The nearest integer, a tie going to the even one.\<close>

definition round_half_even :: "real \<Rightarrow> int" where
  "round_half_even y =
     (let f = \<lfloor>y\<rfloor>; d = y - of_int f
      in if d < 1 / 2 then f else if 1 / 2 < d then f + 1
         else if even f then f else f + 1)"

text \<open>
  The double nearest to a real number (ties to even): the nearest multiple of the
  spacing of its binade, and an infinity from \<open>2 powi 1024\<close> on. Where the program's
  doubles are computed with, a decimal literal of the source stands for \<open>binary64\<close>
  of its value.
\<close>

definition binary64 :: "real \<Rightarrow> jsnum" where
  "binary64 x =
     (let q = 2 powi (binade x - 52); r = of_int (round_half_even (x / q)) * q
      in if 2 powi 1024 \<le> r then PInf
         else if r \<le> - (2 powi 1024) then NInf else Num r)"

text \<open>The operator \<open>+\<close> on doubles: the exact sum, rounded.\<close>

definition double_add :: "jsnum \<Rightarrow> jsnum \<Rightarrow> jsnum" where
  "double_add a b = (case js_add a b of Num x \<Rightarrow> binary64 x | v \<Rightarrow> v)"

text \<open>The value of a finite number.\<close>

fun real_of_jsnum :: "jsnum \<Rightarrow> real" where
  "real_of_jsnum (Num r) = r"
| "real_of_jsnum v = 0"

section \<open>The data model of \<open>types.ts\<close>\<close>

text \<open>
  The interfaces \<open>Ingredient\<close>, \<open>Meal\<close>, \<open>BodyMetrics\<close>, \<open>DailyLog\<close> and
  \<open>MacroGoals\<close>. Field names carry a prefix naming their interface, since several
  interfaces share \<open>id\<close>, \<open>name\<close>, \<open>weight\<close>, \<open>calories\<close> and \<open>protein\<close>.
  An optional field is an \<open>option\<close>; a string is the list of the bytes of its
  UTF-8 encoding.
\<close>

record ingredient =
  ing_id :: string
  ing_name :: string
  ing_weight :: jsnum
  ing_calories :: jsnum
  ing_protein :: jsnum
  ing_carbs :: jsnum
  ing_fat :: jsnum
  ing_addedOilCalories :: jsnum
  ing_notes :: "string option"

record meal =
  meal_id :: string
  meal_name :: string
  meal_timestamp :: jsnum
  meal_items :: "ingredient list"
  meal_cookingMethodNote :: "string option"
  meal_isSkipped :: "bool option"

record bodyMetrics =
  bm_weight :: "jsnum option"
  bm_waist :: "jsnum option"
  bm_thigh :: "jsnum option"
  bm_calf :: "jsnum option"

record dailyLog =
  log_date :: string
  log_meals :: "meal list"
  log_metrics :: bodyMetrics
  log_dailyNotes :: "string option"



definition fixed_egg :: ingredient where
  "fixed_egg =
     \<lparr>ing_id = ''fixed-egg'', ing_name = ''Boiled Egg'', ing_weight = Num 50,
      ing_calories = Num 70, ing_protein = Num 6, ing_carbs = Num (6 / 10),
      ing_fat = Num 5, ing_addedOilCalories = Num 0,
      ing_notes = Some ''Standard large egg''\<rparr>"

definition fixed_milk :: ingredient where
  "fixed_milk =
     \<lparr>ing_id = ''fixed-milk'', ing_name = ''Milk (Whole)'', ing_weight = Num 250,
      ing_calories = Num 150, ing_protein = Num 8, ing_carbs = Num 12,
      ing_fat = Num 8, ing_addedOilCalories = Num 0, ing_notes = Some ''250ml''\<rparr>"

definition FIXED_BREAKFAST_ITEMS :: "ingredient list" where
  "FIXED_BREAKFAST_ITEMS = [fixed_egg, fixed_milk]"

section \<open>The macro aggregator of \<open>MacroProgress.tsx\<close>\<close>

record totals =
  tot_calories :: jsnum
  tot_protein :: jsnum
  tot_carbs :: jsnum
  tot_fat :: jsnum
  tot_oil :: jsnum

text \<open>The initial accumulator of the \<open>reduce\<close>.\<close>

definition zero_totals :: totals where
  "zero_totals =
     \<lparr>tot_calories = Num 0, tot_protein = Num 0, tot_carbs = Num 0,
      tot_fat = Num 0, tot_oil = Num 0\<rparr>"

text \<open>The body of the \<open>forEach\<close>: five \<open>+=\<close> on the accumulator.\<close>

definition add_item :: "totals \<Rightarrow> ingredient \<Rightarrow> totals" where
  "add_item acc item =
     \<lparr>tot_calories = js_add (tot_calories acc) (ing_calories item),
      tot_protein = js_add (tot_protein acc) (ing_protein item),
      tot_carbs = js_add (tot_carbs acc) (ing_carbs item),
      tot_fat = js_add (tot_fat acc) (ing_fat item),
      tot_oil = js_add (tot_oil acc) (ing_addedOilCalories item)\<rparr>"

text \<open>The callback of the \<open>reduce\<close>: every item of the meal, in order.\<close>

definition add_meal :: "totals \<Rightarrow> meal \<Rightarrow> totals" where
  "add_meal acc m = foldl add_item acc (meal_items m)"

text \<open>\<open>log.meals.reduce(..., {calories: 0, protein: 0, carbs: 0, fat: 0, oil: 0})\<close>.\<close>

definition macro_total :: "dailyLog \<Rightarrow> totals" where
  "macro_total dl = foldl add_meal zero_totals (log_meals dl)"

text \<open>
  The specification's reading of the totals: the sum of one field over every record of
  every meal of the log.
\<close>

definition js_sum :: "jsnum list \<Rightarrow> jsnum" where
  "js_sum xs = foldr js_add xs (Num 0)"

definition all_items :: "dailyLog \<Rightarrow> ingredient list" where
  "all_items dl = concat (map meal_items (log_meals dl))"

definition sum_of_records :: "dailyLog \<Rightarrow> totals" where
  "sum_of_records dl =
     \<lparr>tot_calories = js_sum (map ing_calories (all_items dl)),
      tot_protein = js_sum (map ing_protein (all_items dl)),
      tot_carbs = js_sum (map ing_carbs (all_items dl)),
      tot_fat = js_sum (map ing_fat (all_items dl)),
      tot_oil = js_sum (map ing_addedOilCalories (all_items dl))\<rparr>"

text \<open>
  The same \<open>reduce\<close> as the program computes it: every \<open>+=\<close> adds two doubles and
  rounds the sum.
\<close>

definition add_item_double :: "totals \<Rightarrow> ingredient \<Rightarrow> totals" where
  "add_item_double acc item =
     \<lparr>tot_calories = double_add (tot_calories acc) (ing_calories item),
      tot_protein = double_add (tot_protein acc) (ing_protein item),
      tot_carbs = double_add (tot_carbs acc) (ing_carbs item),
      tot_fat = double_add (tot_fat acc) (ing_fat item),
      tot_oil = double_add (tot_oil acc) (ing_addedOilCalories item)\<rparr>"

definition add_meal_double :: "totals \<Rightarrow> meal \<Rightarrow> totals" where
  "add_meal_double acc m = foldl add_item_double acc (meal_items m)"

definition macro_total_double :: "dailyLog \<Rightarrow> totals" where
  "macro_total_double dl = foldl add_meal_double zero_totals (log_meals dl)"

text \<open>
  No sum of the values needs rounding: every value is finite, and the sum of any
  part of the values is a double. \<open>exact_fields\<close> says so of each of the five fields
  of a list of records.
\<close>

definition exact_sums :: "jsnum list \<Rightarrow> bool" where
  "exact_sums vs \<longleftrightarrow>
     (\<forall>v \<in> set vs. v = Num (real_of_jsnum v))
     \<and> (\<forall>M. M \<subseteq># mset (map real_of_jsnum vs) \<longrightarrow> binary64 (sum_mset M) = Num (sum_mset M))"

definition exact_fields :: "ingredient list \<Rightarrow> bool" where
  "exact_fields items \<longleftrightarrow>
     exact_sums (map ing_calories items) \<and> exact_sums (map ing_protein items)
     \<and> exact_sums (map ing_carbs items) \<and> exact_sums (map ing_fat items)
     \<and> exact_sums (map ing_addedOilCalories items)"

section \<open>The goal evaluator of \<open>MacroProgress.tsx\<close>\<close>



definition currentCarbCalories :: "totals \<Rightarrow> jsnum" where
  "currentCarbCalories tot = js_mul (tot_carbs tot) (Num 4)"

text \<open>\<open>total.calories > 0 ? (currentCarbCalories / total.calories) * 100 : 0\<close>.\<close>

definition currentCarbRatio :: "totals \<Rightarrow> jsnum" where
  "currentCarbRatio tot =
     (if js_gt (tot_calories tot) (Num 0)
      then js_mul (js_div (currentCarbCalories tot) (tot_calories tot)) (Num 100)
      else Num 0)"

definition isCarbRatioGood :: "totals \<Rightarrow> bool" where
  "isCarbRatioGood tot = js_ge (currentCarbRatio tot) (Num 50)"

text \<open>\<open>Math.min(100, Math.max(0, (val / target) * 100))\<close>.\<close>

definition getPercent :: "jsnum \<Rightarrow> jsnum \<Rightarrow> jsnum" where
  "getPercent val target =
     js_min (Num 100) (js_max (Num 0) (js_mul (js_div val target) (Num 100)))"


text \<open>
  The specification's formula for the carbohydrate-energy ratio,
  \<open>100 * (carbs * 4) / calories\<close>, in the same arithmetic.
\<close>

definition carb_energy_formula :: "jsnum \<Rightarrow> jsnum \<Rightarrow> jsnum" where
  "carb_energy_formula carbs calories =
     js_div (js_mul (Num 100) (js_mul carbs (Num 4))) calories"

section \<open>The item rescaler of \<open>App.tsx\<close>\<close>

text \<open>
  The branch \<open>field === 'weight'\<close> of \<open>handleUpdateItemDetails\<close>, for one item and
  the new weight \<open>Number(value)\<close>. The object spreads build a new record; the item
  passed in is not assigned to.
\<close>

definition rescale_item :: "ingredient \<Rightarrow> jsnum \<Rightarrow> ingredient" where
  "rescale_item item newWeight =
     (let ratio = (if js_gt (ing_weight item) (Num 0)
                   then js_div newWeight (ing_weight item) else Num 1)
      in if js_seq (ing_weight item) (Num 0) then item\<lparr>ing_weight := newWeight\<rparr>
         else item
           \<lparr>ing_weight := newWeight,
            ing_calories := js_mul (ing_calories item) ratio,
            ing_protein := js_mul (ing_protein item) ratio,
            ing_carbs := js_mul (ing_carbs item) ratio,
            ing_fat := js_mul (ing_fat item) ratio,
            ing_addedOilCalories := js_mul (ing_addedOilCalories item) ratio\<rparr>)"

text \<open>\<open>keyof Ingredient\<close>, and a value of type \<open>string | number\<close>.\<close>

datatype ingredient_key =
  K_id | K_name | K_weight | K_calories | K_protein | K_carbs | K_fat
  | K_addedOilCalories | K_notes

datatype js_value = VString string | VNumber jsnum

text \<open>
  \<open>Number(value)\<close> and \<open>String(value)\<close>. The conversions between a string and a
  number belong to the language's library and are parameters.
\<close>

definition js_Number :: "(string \<Rightarrow> jsnum) \<Rightarrow> js_value \<Rightarrow> jsnum" where
  "js_Number num_of_string v = (case v of VNumber n \<Rightarrow> n | VString s \<Rightarrow> num_of_string s)"

definition js_String :: "(jsnum \<Rightarrow> string) \<Rightarrow> js_value \<Rightarrow> string" where
  "js_String string_of_num v = (case v of VString s \<Rightarrow> s | VNumber n \<Rightarrow> string_of_num n)"

text \<open>The callback of \<open>meal.items.map\<close> in \<open>handleUpdateItemDetails\<close>.\<close>

definition update_item ::
  "(string \<Rightarrow> jsnum) \<Rightarrow> (jsnum \<Rightarrow> string) \<Rightarrow> string \<Rightarrow> ingredient_key \<Rightarrow> js_value
    \<Rightarrow> ingredient \<Rightarrow> ingredient" where
  "update_item num_of_string string_of_num itemId field v item =
     (if ing_id item \<noteq> itemId then item
      else if field = K_weight then rescale_item item (js_Number num_of_string v)
      else if field = K_name then item\<lparr>ing_name := js_String string_of_num v\<rparr>
      else item)"

section \<open>The log store of \<open>App.tsx\<close>\<close>

text \<open>
  The component's state. \<open>logs\<close> is the \<open>Record<string, DailyLog>\<close>;
  \<open>fileInputValue\<close> is the value of the file input behind \<open>fileInputRef\<close>
  (\<open>None\<close> when the ref is not attached); \<open>alerts\<close> lists the messages shown with
  \<open>alert\<close>, oldest first.
\<close>

record app_state =
  logs :: "string \<rightharpoonup> dailyLog"
  selectedDate :: string
  activeMealInput :: "string option"
  input_text :: string
  input_image :: "string option"
  isProcessing :: bool
  fileInputValue :: "string option"
  alerts :: "string list"

text \<open>The meal names and the breakfast note of \<open>getDailyLog\<close>, as UTF-8 bytes.\<close>

definition MEAL_NAME_BREAKFAST :: string where
  "MEAL_NAME_BREAKFAST = [CHR 0xE6, CHR 0x97, CHR 0xA9, CHR 0xE9, CHR 0xA4, CHR 0x90]"

definition MEAL_NAME_LUNCH :: string where
  "MEAL_NAME_LUNCH = [CHR 0xE5, CHR 0x8D, CHR 0x88, CHR 0xE9, CHR 0xA4, CHR 0x90]"

definition MEAL_NAME_DINNER :: string where
  "MEAL_NAME_DINNER = [CHR 0xE6, CHR 0x99, CHR 0x9A, CHR 0xE9, CHR 0xA4, CHR 0x90]"

definition MEAL_NAME_SNACK :: string where
  "MEAL_NAME_SNACK = [CHR 0xE5, CHR 0x8A, CHR 0xA0, CHR 0xE9, CHR 0xA4, CHR 0x90]"

definition BREAKFAST_NOTE :: string where
  "BREAKFAST_NOTE =
     [CHR 0xE6, CHR 0xB0, CHR 0xB4, CHR 0xE7, CHR 0x85, CHR 0xAE] @ ''/''
     @ [CHR 0xE7, CHR 0x94, CHR 0x9F, CHR 0xE9, CHR 0xB2, CHR 0x9C]"

text \<open>The constant \<open>MEAL_TYPES\<close>: the key and the label of each meal slot.\<close>

definition MEAL_TYPES :: "(string \<times> string) list" where
  "MEAL_TYPES =
     [(''breakfast'', MEAL_NAME_BREAKFAST), (''lunch'', MEAL_NAME_LUNCH),
      (''dinner'', MEAL_NAME_DINNER), (''snack'', MEAL_NAME_SNACK)]"

text \<open>
  The default log of a date. \<open>now k\<close> is the value of the \<open>k\<close>-th call of
  \<open>Date.now()\<close> while the log is built.
\<close>

definition default_log :: "(nat \<Rightarrow> jsnum) \<Rightarrow> string \<Rightarrow> dailyLog" where
  "default_log now date =
     \<lparr>log_date = date,
      log_meals =
        [\<lparr>meal_id = ''breakfast-'' @ date, meal_name = MEAL_NAME_BREAKFAST,
          meal_timestamp = now 0, meal_items = FIXED_BREAKFAST_ITEMS,
          meal_cookingMethodNote = Some BREAKFAST_NOTE, meal_isSkipped = None\<rparr>,
         \<lparr>meal_id = ''lunch-'' @ date, meal_name = MEAL_NAME_LUNCH,
          meal_timestamp = now 1, meal_items = [],
          meal_cookingMethodNote = None, meal_isSkipped = None\<rparr>,
         \<lparr>meal_id = ''dinner-'' @ date, meal_name = MEAL_NAME_DINNER,
          meal_timestamp = now 2, meal_items = [],
          meal_cookingMethodNote = None, meal_isSkipped = None\<rparr>,
         \<lparr>meal_id = ''snack-'' @ date, meal_name = MEAL_NAME_SNACK,
          meal_timestamp = now 3, meal_items = [],
          meal_cookingMethodNote = None, meal_isSkipped = None\<rparr>],
      log_metrics = \<lparr>bm_weight = None, bm_waist = None, bm_thigh = None, bm_calf = None\<rparr>,
      log_dailyNotes = None\<rparr>"

text \<open>
  \<open>getDailyLog\<close>: the stored log of the date if there is one, the default log
  otherwise. The function reads the store and calls no setter; the model returns the
  store next to the log to say so. The store is read as a map from dates to logs: the
  keys are the dates \<open>YYYY-MM-DD\<close> the component produces, and the properties every
  object inherits are not part of it.
\<close>

definition getDailyLog ::
  "(nat \<Rightarrow> jsnum) \<Rightarrow> string \<Rightarrow> (string \<rightharpoonup> dailyLog) \<Rightarrow> dailyLog \<times> (string \<rightharpoonup> dailyLog)" where
  "getDailyLog now date store =
     (case store date of Some stored \<Rightarrow> (stored, store)
      | None \<Rightarrow> (default_log now date, store))"

text \<open>\<open>const currentLog = getDailyLog(selectedDate)\<close>.\<close>

definition currentLog :: "(nat \<Rightarrow> jsnum) \<Rightarrow> app_state \<Rightarrow> dailyLog" where
  "currentLog now s = fst (getDailyLog now (selectedDate s) (logs s))"

text \<open>\<open>setLogs(prev => ({ ...prev, [newLog.date]: newLog }))\<close>.\<close>

definition updateLog :: "dailyLog \<Rightarrow> app_state \<Rightarrow> app_state" where
  "updateLog newLog s = s\<lparr>logs := (logs s)(log_date newLog \<mapsto> newLog)\<rparr>"

text \<open>
  \<open>handleUpdateItemDetails\<close>: the item is updated in the meal of the current log,
  and the log is stored.
\<close>

definition handleUpdateItemDetails ::
  "(string \<Rightarrow> jsnum) \<Rightarrow> (jsnum \<Rightarrow> string) \<Rightarrow> (nat \<Rightarrow> jsnum) \<Rightarrow> string \<Rightarrow> string
    \<Rightarrow> ingredient_key \<Rightarrow> js_value \<Rightarrow> app_state \<Rightarrow> app_state" where
  "handleUpdateItemDetails num_of_string string_of_num now mealId itemId field v s =
     (let updatedMeals =
            map (\<lambda>m. if meal_id m \<noteq> mealId then m
                      else m\<lparr>meal_items :=
                             map (update_item num_of_string string_of_num itemId field v)
                               (meal_items m)\<rparr>)
              (log_meals (currentLog now s))
      in updateLog ((currentLog now s)\<lparr>log_meals := updatedMeals\<rparr>) s)"

section \<open>The food entry extraction of \<open>geminiService.ts\<close>\<close>

text \<open>
  \<open>a || b\<close> for a string \<open>a\<close> that may be undefined: \<open>b\<close> when \<open>a\<close> is undefined or
  empty. \<open>truthy_string\<close> is \<open>a || undefined\<close>.
\<close>

definition truthy_or :: "string option \<Rightarrow> string \<Rightarrow> string" where
  "truthy_or a b = (case a of Some x \<Rightarrow> (if x \<noteq> [] then x else b) | None \<Rightarrow> b)"

definition truthy_string :: "string option \<Rightarrow> string option" where
  "truthy_string a = (case a of Some x \<Rightarrow> (if x \<noteq> [] then Some x else None) | None \<Rightarrow> None)"

text \<open>
  The two places \<open>getAIClient\<close> looks for a key: \<open>process.env\<close> and
  \<open>import.meta.env\<close>, each \<open>None\<close> when it does not exist.
\<close>

record key_env =
  process_env :: "(string \<rightharpoonup> string) option"
  import_meta_env :: "(string \<rightharpoonup> string) option"

definition resolve_api_key :: "key_env \<Rightarrow> string" where
  "resolve_api_key env =
     (let apiKey =
            (case process_env env of
               Some e \<Rightarrow> truthy_or (e ''API_KEY'') (truthy_or (e ''REACT_APP_API_KEY'') [])
             | None \<Rightarrow> [])
      in if apiKey = []
         then (case import_meta_env env of
                 Some e \<Rightarrow> truthy_or (e ''VITE_API_KEY'') (truthy_or (e ''API_KEY'') [])
               | None \<Rightarrow> apiKey)
         else apiKey)"

text \<open>The message of the error \<open>getAIClient\<close> throws when it finds no key.\<close>

definition MISSING_KEY_MESSAGE :: string where
  "MISSING_KEY_MESSAGE =
     [CHR 0xE6, CHR 0x9C, CHR 0xAA, CHR 0xE6, CHR 0xA3, CHR 0x80, CHR 0xE6, CHR 0xB5, CHR 0x8B,
      CHR 0xE5, CHR 0x88, CHR 0xB0] @ '' API Key'' @ [CHR 0xE3, CHR 0x80, CHR 0x82, CHR 0x0A, CHR 0x0A]
     @ ''1. **'' @ [CHR 0xE6, CHR 0x9C, CHR 0xAC, CHR 0xE5, CHR 0x9C, CHR 0xB0, CHR 0xE8, CHR 0xBF,
      CHR 0x90, CHR 0xE8, CHR 0xA1, CHR 0x8C] @ ''**: '' @ [CHR 0xE8, CHR 0xAF, CHR 0xB7, CHR 0xE5,
      CHR 0x9C, CHR 0xA8] @ '' .env '' @ [CHR 0xE6, CHR 0x96, CHR 0x87, CHR 0xE4, CHR 0xBB, CHR 0xB6,
      CHR 0xE4, CHR 0xB8, CHR 0xAD, CHR 0xE6, CHR 0xB7, CHR 0xBB, CHR 0xE5, CHR 0x8A, CHR 0xA0]
     @ '' '' @ [CHR 0x60] @ ''API_KEY='' @ [CHR 0xE6, CHR 0x82, CHR 0xA8, CHR 0xE7, CHR 0x9A,
      CHR 0x84, CHR 0xE5, CHR 0xAF, CHR 0x86, CHR 0xE9, CHR 0x92, CHR 0xA5, CHR 0x60] @ '' (''
     @ [CHR 0xE6, CHR 0x88, CHR 0x96] @ '' '' @ [CHR 0x60] @ ''VITE_API_KEY=...'' @ [CHR 0x60]
     @ '' '' @ [CHR 0xE5, CHR 0xA6, CHR 0x82, CHR 0xE6, CHR 0x9E, CHR 0x9C, CHR 0xE4, CHR 0xBD,
      CHR 0xBF, CHR 0xE7, CHR 0x94, CHR 0xA8] @ '' Vite)'' @ [CHR 0xE3, CHR 0x80, CHR 0x82, CHR 0x0A]
     @ ''2. **Vercel/Netlify '' @ [CHR 0xE9, CHR 0x83, CHR 0xA8, CHR 0xE7, CHR 0xBD, CHR 0xB2]
     @ ''**: '' @ [CHR 0xE8, CHR 0xAF, CHR 0xB7, CHR 0xE5, CHR 0x9C, CHR 0xA8, CHR 0xE9, CHR 0xA1,
      CHR 0xB9, CHR 0xE7, CHR 0x9B, CHR 0xAE, CHR 0xE8, CHR 0xAE, CHR 0xBE, CHR 0xE7, CHR 0xBD,
      CHR 0xAE] @ '' (Settings) > Environment Variables '' @ [CHR 0xE4, CHR 0xB8, CHR 0xAD,
      CHR 0xE6, CHR 0xB7, CHR 0xBB, CHR 0xE5, CHR 0x8A, CHR 0xA0, CHR 0xE5, CHR 0x8F, CHR 0x98,
      CHR 0xE9, CHR 0x87, CHR 0x8F] @ '' '' @ [CHR 0x60] @ ''API_KEY'' @ [CHR 0x60] @ '' (''
     @ [CHR 0xE6, CHR 0x88, CHR 0x96] @ '' '' @ [CHR 0x60] @ ''VITE_API_KEY'' @ [CHR 0x60]
     @ '')'' @ [CHR 0xE3, CHR 0x80, CHR 0x82]"

text \<open>
  \<open>getAIClient\<close>: an error (its message on the left) or the client, which the model
  identifies with its key.
\<close>

definition getAIClient :: "key_env \<Rightarrow> string + string" where
  "getAIClient env =
     (if resolve_api_key env = [] then Inl MISSING_KEY_MESSAGE else Inr (resolve_api_key env))"

text \<open>
  The request to the collaborator: the image data, if any, and the description the
  prompt is built around (the prompt's fixed wording is left out). The collaborator
  either rejects the call with an error (its \<open>message\<close>, empty when it has none) or
  answers with a response whose \<open>text\<close> may be undefined.
\<close>

record ai_request =
  req_image :: "string option"
  req_description :: string

datatype ai_outcome = Rejected string | Responded "string option"

text \<open>\<open>imageBase64.split(',')[1] || imageBase64\<close>.\<close>

definition base64Data :: "string \<Rightarrow> string" where
  "base64Data imageBase64 =
     (case dropWhile (\<lambda>c. c \<noteq> CHR '','') imageBase64 of
        [] \<Rightarrow> imageBase64
      | _ # rest \<Rightarrow>
          (if takeWhile (\<lambda>c. c \<noteq> CHR '','') rest \<noteq> []
           then takeWhile (\<lambda>c. c \<noteq> CHR '','') rest else imageBase64))"

text \<open>
  What the function reads of the value \<open>JSON.parse\<close> returns. \<open>result.items\<close> is
  absent (undefined or null, where \<open>?.\<close> stops), an array of records, or another
  value, which has no \<open>map\<close> to call. \<open>result.cookingAnalysis\<close> is a string or
  absent. \<open>ResultNull\<close> is the JSON value \<open>null\<close>, of which no property can be
  read. The items are typed as the response schema types them.
\<close>

datatype parsed_items = ItemsAbsent | ItemsArray "ingredient list" | ItemsNotArray

datatype parsed_result = ResultNull | ResultValue parsed_items "string option"

text \<open>The messages of the two type errors of the engine (V8's wording).\<close>

definition TYPE_ERROR_NULL :: string where
  "TYPE_ERROR_NULL =
     ''Cannot read properties of null (reading '' @ [CHR 0x27] @ ''items'' @ [CHR 0x27] @ '')''"

definition TYPE_ERROR_MAP :: string where
  "TYPE_ERROR_MAP = ''result.items?.map is not a function''"

text \<open>The default cooking analysis and the fallback error message of the source.\<close>

definition DEFAULT_ANALYSIS :: string where
  "DEFAULT_ANALYSIS =
     [CHR 0xE6, CHR 0x97, CHR 0xA0, CHR 0xE9, CHR 0xA2, CHR 0x9D, CHR 0xE5, CHR 0xA4, CHR 0x96,
      CHR 0xE7, CHR 0x83, CHR 0xB9, CHR 0xE9, CHR 0xA5, CHR 0xAA, CHR 0xE8, CHR 0xAF, CHR 0xB4,
      CHR 0xE6, CHR 0x98, CHR 0x8E]"

definition FALLBACK_MESSAGE :: string where
  "FALLBACK_MESSAGE =
     [CHR 0xE5, CHR 0x88, CHR 0x86, CHR 0xE6, CHR 0x9E, CHR 0x90, CHR 0xE9, CHR 0xA3, CHR 0x9F,
      CHR 0xE7, CHR 0x89, CHR 0xA9, CHR 0xE5, CHR 0xA4, CHR 0xB1, CHR 0xE8, CHR 0xB4, CHR 0xA5,
      CHR 0xEF, CHR 0xBC, CHR 0x8C, CHR 0xE8, CHR 0xAF, CHR 0xB7, CHR 0xE9, CHR 0x87, CHR 0x8D,
      CHR 0xE8, CHR 0xAF, CHR 0x95, CHR 0xE3, CHR 0x80, CHR 0x82]"

text \<open>
  Everything outside the repository the two functions depend on: the key
  environment, the collaborator (\<open>ai.models.generateContent\<close>, given the client's key
  and the request), \<open>JSON.parse\<close> (a syntax error's message on the left), the
  identifiers drawn from \<open>Math.random\<close> (\<open>fresh_id k\<close> for the item at index \<open>k\<close>),
  \<open>String.prototype.trim\<close> and \<open>Date.now\<close>.
\<close>

record environment =
  env_keys :: key_env
  env_generateContent :: "string \<Rightarrow> ai_request \<Rightarrow> ai_outcome"
  env_JSON_parse :: "string \<Rightarrow> string + parsed_result"
  env_fresh_id :: "nat \<Rightarrow> string"
  env_trim :: "string \<Rightarrow> string"
  env_now :: "nat \<Rightarrow> jsnum"

record extraction =
  ext_items :: "ingredient list"
  ext_cookingAnalysis :: string

text \<open>\<open>result.items.map(item => ({ ...item, id: ... }))\<close>.\<close>

definition with_ids :: "(nat \<Rightarrow> string) \<Rightarrow> ingredient list \<Rightarrow> ingredient list" where
  "with_ids fresh xs = map (\<lambda>(k, item). item\<lparr>ing_id := fresh k\<rparr>) (enumerate 0 xs)"

text \<open>The \<open>catch\<close> block: \<open>throw new Error(error.message || fallback)\<close>.\<close>

definition rethrow :: "string \<Rightarrow> string + extraction" where
  "rethrow msg = Inl (if msg \<noteq> [] then msg else FALLBACK_MESSAGE)"

text \<open>
  \<open>parseFoodEntry\<close>: the error thrown (its message) on the left, the value returned
  on the right.
\<close>

definition parseFoodEntry :: "environment \<Rightarrow> string \<Rightarrow> string option \<Rightarrow> string + extraction" where
  "parseFoodEntry env description imageBase64 =
     (case getAIClient (env_keys env) of
        Inl msg \<Rightarrow> rethrow msg
      | Inr ai \<Rightarrow>
          (case env_generateContent env ai
                  \<lparr>req_image = map_option base64Data (truthy_string imageBase64),
                   req_description = description\<rparr> of
             Rejected msg \<Rightarrow> rethrow msg
           | Responded text \<Rightarrow>
               (case env_JSON_parse env (truthy_or text ''{}'') of
                  Inl msg \<Rightarrow> rethrow msg
                | Inr ResultNull \<Rightarrow> rethrow TYPE_ERROR_NULL
                | Inr (ResultValue items analysis) \<Rightarrow>
                    (case items of
                       ItemsNotArray \<Rightarrow> rethrow TYPE_ERROR_MAP
                     | ItemsAbsent \<Rightarrow>
                         Inr \<lparr>ext_items = [],
                              ext_cookingAnalysis = truthy_or analysis DEFAULT_ANALYSIS\<rparr>
                     | ItemsArray xs \<Rightarrow>
                         Inr \<lparr>ext_items = with_ids (env_fresh_id env) xs,
                              ext_cookingAnalysis = truthy_or analysis DEFAULT_ANALYSIS\<rparr>))))"

section \<open>Adding food in \<open>App.tsx\<close>\<close>

definition ALERT_PREFIX :: string where
  "ALERT_PREFIX =
     [CHR 0xE6, CHR 0x97, CHR 0xA0, CHR 0xE6, CHR 0xB3, CHR 0x95, CHR 0xE8, CHR 0xAF, CHR 0x86,
      CHR 0xE5, CHR 0x88, CHR 0xAB, CHR 0xE9, CHR 0xA3, CHR 0x9F, CHR 0xE7, CHR 0x89, CHR 0xA9]
     @ '': ''"

text \<open>The callback of \<open>currentLog.meals.map\<close> in \<open>handleAddFood\<close>.\<close>

definition append_extraction :: "string \<Rightarrow> extraction \<Rightarrow> meal \<Rightarrow> meal" where
  "append_extraction mealId ext m =
     (if meal_id m = mealId
      then m\<lparr>meal_items := meal_items m @ ext_items ext,
             meal_cookingMethodNote :=
               Some (case truthy_string (meal_cookingMethodNote m) of
                       Some note \<Rightarrow> note @ ''; '' @ ext_cookingAnalysis ext
                     | None \<Rightarrow> ext_cookingAnalysis ext)\<rparr>
      else m)"

text \<open>
  \<open>handleAddFood\<close>, from the click to the end of its \<open>finally\<close>, as one step on the
  state the handler was rendered with.
\<close>

definition handleAddFood :: "environment \<Rightarrow> string \<Rightarrow> string \<Rightarrow> app_state \<Rightarrow> app_state" where
  "handleAddFood env mealTypeKey mealId s =
     (if env_trim env (input_text s) = [] \<and> truthy_string (input_image s) = None then s
      else
        (case parseFoodEntry env (input_text s) (truthy_string (input_image s)) of
           Inr ext \<Rightarrow>
             (updateLog
                ((currentLog (env_now env) s)
                   \<lparr>log_meals :=
                      map (append_extraction mealId ext) (log_meals (currentLog (env_now env) s))\<rparr>)
                s)
               \<lparr>input_text := [], input_image := None, activeMealInput := None,
                fileInputValue := map_option (\<lambda>_. []) (fileInputValue s),
                isProcessing := False\<rparr>
         | Inl msg \<Rightarrow>
             s\<lparr>alerts := alerts s @ [ALERT_PREFIX @ msg], isProcessing := False\<rparr>))"

section \<open>Concrete states and environments\<close>

text \<open>
  The state the component starts in, for the logs read from storage and today's date:
  no meal input open, empty input, nothing in progress, nothing alerted. (Of the
  component's state only what the functions above read or write is modelled.)
\<close>

definition initial_state :: "(string \<rightharpoonup> dailyLog) \<Rightarrow> string \<Rightarrow> app_state" where
  "initial_state stored today =
     \<lparr>logs = stored, selectedDate = today, activeMealInput = None, input_text = [],
      input_image = None, isProcessing = False, fileInputValue = None, alerts = []\<rparr>"

text \<open>
  An environment to run the functions in: a key in \<open>process.env\<close>, a collaborator
  with one fixed outcome, a \<open>JSON.parse\<close> that reads \<open>{}\<close> as the empty object and
  rejects every other text, identifiers \<open>x\<close>, \<open>xx\<close>, ..., a \<open>trim\<close> of
  spaces, and a clock standing at 0.
\<close>

definition ascii_trim :: "string \<Rightarrow> string" where
  "ascii_trim s =
     rev (dropWhile (\<lambda>c. c = CHR '' '') (rev (dropWhile (\<lambda>c. c = CHR '' '') s)))"

definition example_env :: "ai_outcome \<Rightarrow> environment" where
  "example_env outcome =
     \<lparr>env_keys = \<lparr>process_env = Some [''API_KEY'' \<mapsto> ''secret''], import_meta_env = None\<rparr>,
      env_generateContent = (\<lambda>ai request. outcome),
      env_JSON_parse =
        (\<lambda>text. if text = ''{}'' then Inr (ResultValue ItemsAbsent None)
                else Inl ''Unexpected token''),
      env_fresh_id = (\<lambda>k. replicate (Suc k) CHR ''x''),
      env_trim = ascii_trim,
      env_now = (\<lambda>k. Num 0)\<rparr>"

text \<open>
  A state with a stored log for one day and the text \<open>rice\<close> typed into the lunch
  input.
\<close>

definition offline_state :: app_state where
  "offline_state =
     (initial_state [''2024-05-01'' \<mapsto> default_log (\<lambda>k. Num 1) ''2024-05-01''] ''2024-05-01'')
       \<lparr>input_text := ''rice'', activeMealInput := Some ''lunch''\<rparr>"

text \<open>
  A record with the given carbohydrate literal and nothing else, and a log of one day
  with one lunch holding the given records.
\<close>

definition carb_item :: "string \<Rightarrow> real \<Rightarrow> ingredient" where
  "carb_item ident carbs =
     \<lparr>ing_id = ident, ing_name = ''sample'', ing_weight = Num 100, ing_calories = Num 0,
      ing_protein = Num 0, ing_carbs = binary64 carbs, ing_fat = Num 0,
      ing_addedOilCalories = Num 0, ing_notes = None\<rparr>"

definition lunch_log :: "ingredient list \<Rightarrow> dailyLog" where
  "lunch_log items =
     \<lparr>log_date = ''2024-05-01'',
      log_meals =
        [\<lparr>meal_id = ''lunch-2024-05-01'', meal_name = MEAL_NAME_LUNCH, meal_timestamp = Num 0,
          meal_items = items, meal_cookingMethodNote = None, meal_isSkipped = None\<rparr>],
      log_metrics = \<lparr>bm_weight = None, bm_waist = None, bm_thigh = None, bm_calf = None\<rparr>,
      log_dailyNotes = None\<rparr>"

text \<open>
  A record whose values are whole numbers, and a log with a lunch of rice and chicken
  and a snack of an apple.
\<close>

definition whole_item :: "string \<Rightarrow> nat \<Rightarrow> nat \<Rightarrow> nat \<Rightarrow> nat \<Rightarrow> nat \<Rightarrow> ingredient" where
  "whole_item ident kcal protein carbs fat oil =
     \<lparr>ing_id = ident, ing_name = ident, ing_weight = Num 100, ing_calories = Num (real kcal),
      ing_protein = Num (real protein), ing_carbs = Num (real carbs), ing_fat = Num (real fat),
      ing_addedOilCalories = Num (real oil), ing_notes = None\<rparr>"

definition whole_log :: dailyLog where
  "whole_log =
     \<lparr>log_date = ''2024-05-01'',
      log_meals =
        [\<lparr>meal_id = ''lunch-2024-05-01'', meal_name = MEAL_NAME_LUNCH, meal_timestamp = Num 0,
          meal_items = [whole_item ''rice'' 130 3 28 0 0, whole_item ''chicken'' 165 31 0 4 20],
          meal_cookingMethodNote = None, meal_isSkipped = None\<rparr>,
         \<lparr>meal_id = ''snack-2024-05-01'', meal_name = MEAL_NAME_SNACK, meal_timestamp = Num 0,
          meal_items = [whole_item ''apple'' 52 0 14 0 0],
          meal_cookingMethodNote = None, meal_isSkipped = None\<rparr>],
      log_metrics = \<lparr>bm_weight = None, bm_waist = None, bm_thigh = None, bm_calf = None\<rparr>,
      log_dailyNotes = None\<rparr>"

text \<open>The totals of the specification's scenario: the default breakfast alone.\<close>

definition scenario_totals :: totals where
  "scenario_totals =
     \<lparr>tot_calories = Num 220, tot_protein = Num 14, tot_carbs = Num (126 / 10),
      tot_fat = Num 13, tot_oil = Num 0\<rparr>"

section \<open>Properties of the number model\<close>

lemma js_add_commute: "js_add a b = js_add b a"
  by (cases a; cases b) simp_all

lemma js_add_assoc: "js_add (js_add a b) c = js_add a (js_add b c)"
  by (cases a; cases b; cases c) simp_all

lemma js_add_zero_left: "js_add (Num 0) a = a"
  by (cases a) simp_all

lemma js_add_zero_right: "js_add a (Num 0) = a"
  by (cases a) simp_all

section \<open>Properties of the rounding\<close>

lemma find_exp_spec:
  "2 powi e \<le> x \<Longrightarrow>
   2 powi (find_exp n x e) \<le> x \<and> e \<le> find_exp n x e \<and> find_exp n x e \<le> e + int n
   \<and> (x < 2 powi (find_exp n x e + 1) \<or> find_exp n x e = e + int n)"
proof (induction n arbitrary: e)
  case 0
  then show ?case by simp
next
  case (Suc n)
  show ?case
  proof (cases "2 powi (e + 1) \<le> x")
    case True
    from Suc.IH [OF True] show ?thesis using True by (auto simp: algebra_simps)
  next
    case False
    then show ?thesis using Suc.prems by auto
  qed
qed

lemma find_exp_stop: "x < 2 powi (e + 1) \<Longrightarrow> find_exp n x e = e"
  by (cases n) auto

lemma binade_small: "\<bar>x\<bar> < 2 powi (- 1021) \<Longrightarrow> binade x = - 1022"
  unfolding binade_def by (rule find_exp_stop) simp

lemma binade_bounds:
  assumes "2 powi (- 1022) \<le> \<bar>x\<bar>" and "\<bar>x\<bar> < 2 powi 1024"
  shows "2 powi (binade x) \<le> \<bar>x\<bar> \<and> \<bar>x\<bar> < 2 powi (binade x + 1)
         \<and> - 1022 \<le> binade x \<and> binade x \<le> 1023"
proof -
  from find_exp_spec [OF assms(1), of 2045]
  have a: "2 powi (binade x) \<le> \<bar>x\<bar>" and b: "- 1022 \<le> binade x" and c: "binade x \<le> 1023"
    and d: "\<bar>x\<bar> < 2 powi (binade x + 1) \<or> binade x = 1023"
    by (simp_all add: binade_def)
  from d assms(2) have "\<bar>x\<bar> < 2 powi (binade x + 1)"
    by auto
  with a b c show ?thesis by simp
qed

lemma binade_eq:
  assumes "2 powi k \<le> \<bar>x\<bar>" and "\<bar>x\<bar> < 2 powi (k + 1)" and "- 1022 \<le> k" and "k \<le> 1023"
  shows "binade x = k"
proof -
  have lo: "(2::real) powi (- 1022) \<le> 2 powi k"
    using assms(3) by (intro power_int_increasing) auto
  have hi: "(2::real) powi (k + 1) \<le> 2 powi 1024"
    using assms(4) by (intro power_int_increasing) auto
  from binade_bounds [of x] lo hi assms
  have b: "2 powi (binade x) \<le> \<bar>x\<bar>" "\<bar>x\<bar> < 2 powi (binade x + 1)"
    by auto
  have "(2::real) powi (binade x) < 2 powi (k + 1)"
    using b(1) assms(2) by simp
  then have "binade x < k + 1"
    by (metis linorder_not_less power_int_increasing one_le_numeral)
  moreover have "(2::real) powi k < 2 powi (binade x + 1)"
    using b(2) assms(1) by simp
  then have "k < binade x + 1"
    by (metis linorder_not_less power_int_increasing one_le_numeral)
  ultimately show ?thesis by simp
qed

lemma binary64_zero: "binary64 0 = Num 0"
  by (simp add: binary64_def binade_small round_half_even_def)

lemma double_add_zero: "double_add (Num 0) (Num 0) = Num 0"
  by (simp add: double_add_def binary64_zero)

lemma double_add_finite: "double_add (Num a) (Num b) = binary64 (a + b)"
  by (simp add: double_add_def)

lemma round_half_even_of_int: "round_half_even (of_int k) = k"
  by (simp add: round_half_even_def)

lemma binary64_on_grid:
  assumes "x = of_int k * 2 powi (binade x - 52)" and "\<bar>x\<bar> < 2 powi 1024"
  shows "binary64 x = Num x"
proof -
  have "x / 2 powi (binade x - 52) = of_int k"
    using assms(1) by (metis nonzero_mult_div_cancel_right power_int_not_zero zero_neq_numeral)
  then have "of_int (round_half_even (x / 2 powi (binade x - 52))) * 2 powi (binade x - 52) = x"
    using assms(1) by (simp add: round_half_even_of_int)
  moreover have "\<not> 2 powi 1024 \<le> x" and "\<not> x \<le> - (2 powi 1024)"
    using assms(2) by auto
  ultimately show ?thesis
    by (simp add: binary64_def Let_def)
qed

lemma binary64_of_nat:
  assumes "n \<le> 2 ^ 53"
  shows "binary64 (real n) = Num (real n)"
proof (cases "n = 0")
  case True
  then show ?thesis by (simp add: binary64_zero)
next
  case False
  define x where "x = real n"
  define e where "e = binade x"
  have "1 \<le> n"
    using False by simp
  then have x1: "1 \<le> x"
    unfolding x_def by linarith
  have "real n \<le> real (2 ^ 53)"
    using assms by (rule of_nat_mono)
  then have x53: "x \<le> 2 ^ 53"
    unfolding x_def by simp
  have "2 powi (- 1022) \<le> \<bar>x\<bar>" and big: "\<bar>x\<bar> < 2 powi 1024"
    using x1 x53 by simp_all
  from binade_bounds [OF this]
  have lo: "2 powi e \<le> x" and hi: "x < 2 powi (e + 1)"
    using x1 unfolding e_def by simp_all
  have e0: "0 \<le> e"
  proof (rule ccontr)
    assume "\<not> 0 \<le> e"
    then have "(2::real) powi (e + 1) \<le> 2 powi 0"
      by (intro power_int_increasing) auto
    with hi x1 show False by simp
  qed
  have "(2::real) powi e \<le> 2 powi 53"
    using lo x53 by simp
  then have e53: "e \<le> 53"
    by (rule power_int_le_imp_le_exp [rotated]) simp_all
  show ?thesis
  proof (cases "e = 53")
    case True
    with lo x53 have "x = 2 ^ 53" by simp
    then have "x = of_int (2 ^ 52) * 2 powi (binade x - 52)"
      using True by (simp add: e_def)
    then show ?thesis
      unfolding x_def [symmetric] using big by (rule binary64_on_grid)
  next
    case False
    with e53 have small: "0 \<le> 52 - e" by simp
    have "(2::real) powi (52 - e) * 2 powi (e - 52) = 2 powi ((52 - e) + (e - 52))"
      by (rule power_int_add [symmetric]) simp
    then have one: "(2::real) powi (52 - e) * 2 powi (e - 52) = 1"
      by simp
    have p: "(2::real) powi (52 - e) = of_int (2 ^ nat (52 - e))"
      using small by (simp add: power_int_def)
    have "of_int (int n * 2 ^ nat (52 - e)) * 2 powi (e - 52) =
          x * of_int (2 ^ nat (52 - e)) * 2 powi (e - 52)"
      by (simp add: x_def)
    also have "\<dots> = x * (2 powi (52 - e) * 2 powi (e - 52))"
      by (simp only: p mult.assoc)
    also have "\<dots> = x"
      by (simp only: one mult_1_right)
    finally have "of_int (int n * 2 ^ nat (52 - e)) * 2 powi (e - 52) = x" .
    then have "x = of_int (int n * 2 ^ nat (52 - e)) * 2 powi (binade x - 52)"
      unfolding e_def by (rule sym)
    then show ?thesis
      unfolding x_def [symmetric] using big by (rule binary64_on_grid)
  qed
qed

lemma binary64_tenth: "binary64 (1 / 10) = Num (3602879701896397 / 36028797018963968)"
proof -
  have "binade (1 / 10) = - 4" by (rule binade_eq) simp_all
  then show ?thesis
    by (simp add: binary64_def round_half_even_def Let_def)
qed

lemma binary64_fifth: "binary64 (2 / 10) = Num (3602879701896397 / 18014398509481984)"
proof -
  have "binade (2 / 10) = - 3" by (rule binade_eq) simp_all
  then show ?thesis
    by (simp add: binary64_def round_half_even_def Let_def)
qed

lemma binary64_three_tenths: "binary64 (3 / 10) = Num (5404319552844595 / 18014398509481984)"
proof -
  have "binade (3 / 10) = - 2" by (rule binade_eq) simp_all
  then show ?thesis
    by (simp add: binary64_def round_half_even_def Let_def)
qed

lemma sum_forward:
  "double_add (double_add (double_add (Num 0) (binary64 (1 / 10))) (binary64 (2 / 10)))
     (binary64 (3 / 10)) = Num (5404319552844596 / 9007199254740992)"
proof -
  have a: "binary64 (0 + 3602879701896397 / 36028797018963968) =
           Num (3602879701896397 / 36028797018963968)"
  proof -
    have "binade (0 + 3602879701896397 / 36028797018963968) = - 4"
      by (rule binade_eq) simp_all
    then show ?thesis
      by (simp add: binary64_def round_half_even_def Let_def)
  qed
  have b: "binary64 (3602879701896397 / 36028797018963968 + 3602879701896397 / 18014398509481984) =
           Num (5404319552844596 / 18014398509481984)"
  proof -
    have "binade (3602879701896397 / 36028797018963968 + 3602879701896397 / 18014398509481984) = - 2"
      by (rule binade_eq) simp_all
    then show ?thesis
      by (simp add: binary64_def round_half_even_def Let_def)
  qed
  have c: "binary64 (5404319552844596 / 18014398509481984 + 5404319552844595 / 18014398509481984) =
           Num (5404319552844596 / 9007199254740992)"
  proof -
    have "binade (5404319552844596 / 18014398509481984 + 5404319552844595 / 18014398509481984) = - 1"
      by (rule binade_eq) simp_all
    then show ?thesis
      by (simp add: binary64_def round_half_even_def Let_def)
  qed
  show ?thesis
    unfolding binary64_tenth binary64_fifth binary64_three_tenths double_add_finite a b c ..
qed

lemma sum_backward:
  "double_add (double_add (double_add (Num 0) (binary64 (3 / 10))) (binary64 (2 / 10)))
     (binary64 (1 / 10)) = Num (5404319552844595 / 9007199254740992)"
proof -
  have a: "binary64 (0 + 5404319552844595 / 18014398509481984) =
           Num (5404319552844595 / 18014398509481984)"
  proof -
    have "binade (0 + 5404319552844595 / 18014398509481984) = - 2"
      by (rule binade_eq) simp_all
    then show ?thesis
      by (simp add: binary64_def round_half_even_def Let_def)
  qed
  have b: "binary64 (5404319552844595 / 18014398509481984 + 3602879701896397 / 18014398509481984) =
           Num (1 / 2)"
  proof -
    have "binade (5404319552844595 / 18014398509481984 + 3602879701896397 / 18014398509481984) = - 1"
      by (rule binade_eq) simp_all
    then show ?thesis
      by (simp add: binary64_def round_half_even_def Let_def)
  qed
  have c: "binary64 (1 / 2 + 3602879701896397 / 36028797018963968) =
           Num (5404319552844595 / 9007199254740992)"
  proof -
    have "binade (1 / 2 + 3602879701896397 / 36028797018963968) = - 1"
      by (rule binade_eq) simp_all
    then show ?thesis
      by (simp add: binary64_def round_half_even_def Let_def)
  qed
  show ?thesis
    unfolding binary64_tenth binary64_fifth binary64_three_tenths double_add_finite a b c ..
qed

section \<open>The aggregator and the sum of the records\<close>

lemma foldl_add_item:
  "foldl add_item acc xs =
     \<lparr>tot_calories = js_add (tot_calories acc) (js_sum (map ing_calories xs)),
      tot_protein = js_add (tot_protein acc) (js_sum (map ing_protein xs)),
      tot_carbs = js_add (tot_carbs acc) (js_sum (map ing_carbs xs)),
      tot_fat = js_add (tot_fat acc) (js_sum (map ing_fat xs)),
      tot_oil = js_add (tot_oil acc) (js_sum (map ing_addedOilCalories xs))\<rparr>"
proof (induction xs arbitrary: acc)
  case Nil
  show ?case by (simp add: js_sum_def js_add_zero_right)
next
  case (Cons x xs)
  show ?case
    unfolding foldl_Cons Cons.IH
    by (simp add: add_item_def js_sum_def js_add_assoc)
qed

lemma foldl_add_meal: "foldl add_meal acc ms = foldl add_item acc (concat (map meal_items ms))"
  by (induction ms arbitrary: acc) (simp_all add: add_meal_def)

lemma macro_total_sum: "macro_total dl = sum_of_records dl"
  by (simp add: macro_total_def foldl_add_meal foldl_add_item sum_of_records_def all_items_def
      zero_totals_def js_add_zero_left)

lemma add_item_commute: "add_item (add_item acc a) b = add_item (add_item acc b) a"
  by (simp add: add_item_def js_add_assoc js_add_commute [of "ing_calories a"]
    js_add_commute [of "ing_protein a"] js_add_commute [of "ing_carbs a"]
    js_add_commute [of "ing_fat a"] js_add_commute [of "ing_addedOilCalories a"])

lemma foldl_add_item_mset:
  assumes "mset xs = mset ys"
  shows "foldl add_item acc xs = foldl add_item acc ys"
proof -
  have "fold (\<lambda>x a. add_item a x) xs = fold (\<lambda>x a. add_item a x) ys"
    by (rule fold_multiset_equiv) (auto simp: fun_eq_iff add_item_commute assms)
  then show ?thesis by (simp add: foldl_conv_fold)
qed

lemma js_sum_finite: "js_sum (map Num rs) = Num (sum_list rs)"
  by (induction rs) (simp_all add: js_sum_def)




section \<open>The aggregator and the order of the records\<close>

lemma foldl_add_item_double:
  "foldl add_item_double acc xs =
     \<lparr>tot_calories = foldl double_add (tot_calories acc) (map ing_calories xs),
      tot_protein = foldl double_add (tot_protein acc) (map ing_protein xs),
      tot_carbs = foldl double_add (tot_carbs acc) (map ing_carbs xs),
      tot_fat = foldl double_add (tot_fat acc) (map ing_fat xs),
      tot_oil = foldl double_add (tot_oil acc) (map ing_addedOilCalories xs)\<rparr>"
proof (induction xs arbitrary: acc)
  case Nil
  show ?case by simp
next
  case (Cons x xs)
  show ?case
    unfolding foldl_Cons Cons.IH by (simp add: add_item_double_def)
qed

lemma foldl_add_meal_double:
  "foldl add_meal_double acc ms = foldl add_item_double acc (concat (map meal_items ms))"
  by (induction ms arbitrary: acc) (simp_all add: add_meal_double_def)

lemma foldl_double_add_exact:
  assumes "\<forall>M. M \<subseteq># mset rs \<longrightarrow> binary64 (a + sum_mset M) = Num (a + sum_mset M)"
  shows "foldl double_add (Num a) (map Num rs) = Num (a + sum_list rs)"
  using assms
proof (induction rs arbitrary: a)
  case Nil
  show ?case by simp
next
  case (Cons x rs)
  have "{#x#} \<subseteq># mset (x # rs)"
    by simp
  with Cons.prems have first: "binary64 (a + x) = Num (a + x)"
    by fastforce
  have rest: "\<forall>M. M \<subseteq># mset rs \<longrightarrow> binary64 (a + x + sum_mset M) = Num (a + x + sum_mset M)"
  proof (intro allI impI)
    fix M assume "M \<subseteq># mset rs"
    then have "add_mset x M \<subseteq># mset (x # rs)"
      by simp
    with Cons.prems have "binary64 (a + sum_mset (add_mset x M)) = Num (a + sum_mset (add_mset x M))"
      by blast
    then show "binary64 (a + x + sum_mset M) = Num (a + x + sum_mset M)"
      by (simp add: add.assoc)
  qed
  show ?case
    by (simp add: double_add_finite first Cons.IH [OF rest] add.assoc)
qed

lemma exact_sums_values:
  assumes "exact_sums vs"
  shows "map Num (map real_of_jsnum vs) = vs"
proof -
  have "\<forall>v \<in> set vs. v = Num (real_of_jsnum v)"
    using assms by (simp add: exact_sums_def)
  then show ?thesis
    by (induction vs) simp_all
qed

lemma exact_sums_double:
  assumes "exact_sums vs"
  shows "foldl double_add (Num 0) vs = js_sum vs"
proof -
  let ?rs = "map real_of_jsnum vs"
  have vs: "map Num ?rs = vs"
    using assms by (rule exact_sums_values)
  have "\<forall>M. M \<subseteq># mset ?rs \<longrightarrow> binary64 (0 + sum_mset M) = Num (0 + sum_mset M)"
    using assms by (simp add: exact_sums_def)
  then have "foldl double_add (Num 0) (map Num ?rs) = Num (0 + sum_list ?rs)"
    by (rule foldl_double_add_exact)
  moreover have "js_sum (map Num ?rs) = Num (sum_list ?rs)"
    by (rule js_sum_finite)
  ultimately show ?thesis
    unfolding vs by simp
qed

lemma macro_total_double_fold:
  "macro_total_double dl = foldl add_item_double zero_totals (all_items dl)"
  by (simp add: macro_total_double_def foldl_add_meal_double all_items_def)

lemma sum_of_records_fold: "sum_of_records dl = foldl add_item zero_totals (all_items dl)"
  using macro_total_sum [of dl] by (simp add: macro_total_def foldl_add_meal all_items_def)

lemma macro_total_double_exact:
  assumes "exact_fields (all_items dl)"
  shows "macro_total_double dl = sum_of_records dl"
proof -
  have "foldl double_add (Num 0) (map ing_calories (all_items dl)) =
          js_sum (map ing_calories (all_items dl))"
    and "foldl double_add (Num 0) (map ing_protein (all_items dl)) =
          js_sum (map ing_protein (all_items dl))"
    and "foldl double_add (Num 0) (map ing_carbs (all_items dl)) =
          js_sum (map ing_carbs (all_items dl))"
    and "foldl double_add (Num 0) (map ing_fat (all_items dl)) =
          js_sum (map ing_fat (all_items dl))"
    and "foldl double_add (Num 0) (map ing_addedOilCalories (all_items dl)) =
          js_sum (map ing_addedOilCalories (all_items dl))"
    using assms by (simp_all add: exact_fields_def exact_sums_double)
  then show ?thesis
    unfolding macro_total_double_fold foldl_add_item_double sum_of_records_def
    by (simp add: zero_totals_def)
qed

lemma exact_sums_mset:
  assumes "mset vs = mset ws"
  shows "exact_sums vs \<longleftrightarrow> exact_sums ws"
proof -
  have "set vs = set ws"
    using assms by (rule mset_eq_setD)
  moreover have "mset (map real_of_jsnum vs) = mset (map real_of_jsnum ws)"
    using assms by simp
  ultimately show ?thesis
    by (simp add: exact_sums_def)
qed

lemma exact_fields_mset:
  assumes "mset xs = mset ys"
  shows "exact_fields xs \<longleftrightarrow> exact_fields ys"
proof -
  have "exact_sums (map f xs) \<longleftrightarrow> exact_sums (map f ys)" for f :: "ingredient \<Rightarrow> jsnum"
    by (rule exact_sums_mset) (simp add: assms)
  then show ?thesis
    unfolding exact_fields_def by blast
qed

lemma all_items_mset:
  assumes "list_all2 (\<lambda>m n. mset (meal_items n) = mset (meal_items m)) (log_meals dl) ms"
    and "mset (log_meals dl') = mset ms"
  shows "mset (all_items dl') = mset (all_items dl)"
proof -
  have same: "map (\<lambda>m. mset (meal_items m)) ms = map (\<lambda>m. mset (meal_items m)) (log_meals dl)"
    using assms(1) by (induction rule: list_all2_induct) simp_all
  have "mset (all_items dl') = sum_mset (image_mset (\<lambda>m. mset (meal_items m)) (mset (log_meals dl')))"
    by (simp add: all_items_def mset_concat comp_def flip: sum_mset_sum_list)
  also have "\<dots> = sum_mset (image_mset (\<lambda>m. mset (meal_items m)) (mset ms))"
    by (simp add: assms(2))
  also have "\<dots> = sum_list (map (\<lambda>m. mset (meal_items m)) ms)"
    by (simp flip: sum_mset_sum_list)
  also have "\<dots> = mset (all_items dl)"
    by (simp add: same all_items_def mset_concat comp_def)
  finally show ?thesis .
qed

lemma sum_mset_nat_valued:
  assumes "\<forall>x \<in># M. x \<in> \<nat>"
  shows "sum_mset M \<in> (\<nat> :: real set)"
  using assms by (induction M) (auto intro: Nats_add)

lemma sum_mset_nonnegative:
  assumes "\<forall>x \<in># M. 0 \<le> x"
  shows "0 \<le> (sum_mset M :: real)"
  using assms by (induction M) auto

lemma exact_sums_whole:
  assumes "sum_list ns \<le> 2 ^ 53"
  shows "exact_sums (map (\<lambda>n. Num (real n)) ns)"
  unfolding exact_sums_def
proof (intro conjI allI impI ballI)
  fix v assume "v \<in> set (map (\<lambda>n. Num (real n)) ns)"
  then show "v = Num (real_of_jsnum v)" by auto
next
  fix M :: "real multiset"
  assume "M \<subseteq># mset (map real_of_jsnum (map (\<lambda>n. Num (real n)) ns))"
  then have sub: "M \<subseteq># image_mset real (mset ns)"
    by (simp add: comp_def)
  then obtain C where split: "image_mset real (mset ns) = M + C"
    by (auto simp: mset_subset_eq_exists_conv)
  have elems: "x \<in> \<nat> \<and> 0 \<le> x" if "x \<in># image_mset real (mset ns)" for x
    using that by auto
  have "\<forall>x \<in># M. x \<in> \<nat>"
    using elems split by (metis union_iff)
  then have "sum_mset M \<in> \<nat>"
    by (rule sum_mset_nat_valued)
  then obtain m where m: "sum_mset M = real m"
    by (auto simp: Nats_def)
  have "\<forall>x \<in># C. 0 \<le> x"
    using elems split by (metis union_iff)
  then have "0 \<le> sum_mset C"
    by (rule sum_mset_nonnegative)
  moreover have "sum_mset (image_mset real (mset ns)) = sum_mset M + sum_mset C"
    by (simp add: split)
  moreover have "sum_mset (image_mset real (mset ns)) = real (sum_list ns)"
    by (induction ns) simp_all
  ultimately have "real m \<le> real (sum_list ns)"
    using m by simp
  then have "m \<le> 2 ^ 53"
    using assms by simp
  then show "binary64 (sum_mset M) = Num (sum_mset M)"
    unfolding m by (rule binary64_of_nat)
qed

text \<open>
  Claim C8 as stated fails: the program adds doubles from left to right, and that
  addition is not associative. Three records with the carbohydrate literals 0.1, 0.2
  and 0.3 total 5404319552844596 / 2^53 (printed 0.6000000000000001) in this order
  and 5404319552844595 / 2^53 (printed 0.6) in the reverse order.
\<close>

theorem macro_total_order_counterexample:
  "mset [carb_item ''c'' (3 / 10), carb_item ''b'' (2 / 10), carb_item ''a'' (1 / 10)] =
     mset [carb_item ''a'' (1 / 10), carb_item ''b'' (2 / 10), carb_item ''c'' (3 / 10)]
   \<and> tot_carbs (macro_total_double
        (lunch_log [carb_item ''a'' (1 / 10), carb_item ''b'' (2 / 10), carb_item ''c'' (3 / 10)])) =
       Num (5404319552844596 / 9007199254740992)
   \<and> tot_carbs (macro_total_double
        (lunch_log [carb_item ''c'' (3 / 10), carb_item ''b'' (2 / 10), carb_item ''a'' (1 / 10)])) =
       Num (5404319552844595 / 9007199254740992)
   \<and> macro_total_double
        (lunch_log [carb_item ''c'' (3 / 10), carb_item ''b'' (2 / 10), carb_item ''a'' (1 / 10)]) \<noteq>
       macro_total_double
        (lunch_log [carb_item ''a'' (1 / 10), carb_item ''b'' (2 / 10), carb_item ''c'' (3 / 10)])"
proof -
  let ?abc = "lunch_log [carb_item ''a'' (1 / 10), carb_item ''b'' (2 / 10), carb_item ''c'' (3 / 10)]"
  let ?cba = "lunch_log [carb_item ''c'' (3 / 10), carb_item ''b'' (2 / 10), carb_item ''a'' (1 / 10)]"
  have perm: "mset [carb_item ''c'' (3 / 10), carb_item ''b'' (2 / 10), carb_item ''a'' (1 / 10)] =
     mset [carb_item ''a'' (1 / 10), carb_item ''b'' (2 / 10), carb_item ''c'' (3 / 10)]"
    by (simp add: add_mset_commute)
  have "tot_carbs (macro_total_double ?abc) =
    double_add (double_add (double_add (Num 0) (binary64 (1 / 10))) (binary64 (2 / 10)))
     (binary64 (3 / 10))"
    by (simp add: macro_total_double_def lunch_log_def add_meal_double_def add_item_double_def
        carb_item_def zero_totals_def)
  then have fwd: "tot_carbs (macro_total_double ?abc) = Num (5404319552844596 / 9007199254740992)"
    by (simp only: sum_forward)
  have "tot_carbs (macro_total_double ?cba) =
    double_add (double_add (double_add (Num 0) (binary64 (3 / 10))) (binary64 (2 / 10)))
     (binary64 (1 / 10))"
    by (simp add: macro_total_double_def lunch_log_def add_meal_double_def add_item_double_def
        carb_item_def zero_totals_def)
  then have bwd: "tot_carbs (macro_total_double ?cba) = Num (5404319552844595 / 9007199254740992)"
    by (simp only: sum_backward)
  have "tot_carbs (macro_total_double ?cba) \<noteq> tot_carbs (macro_total_double ?abc)"
    unfolding fwd bwd by simp
  then have "macro_total_double ?cba \<noteq> macro_total_double ?abc"
    by auto
  with perm fwd bwd show ?thesis by blast
qed

text \<open>
  Claim C8, amended. Let no sum of the values of a log need rounding: the values are
  finite and the sum of any part of the values of a field is a double, as it is
  when all values are whole numbers and each field sums to at most 2^53. Let \<open>ms\<close> be
  the meals of the log with the items of each meal permuted in any way, and let a
  second log hold the meals \<open>ms\<close> in any order. Then the program computes the same
  totals for both logs, and they are the exact sums of the records.
\<close>

theorem macro_total_double_permutation:
  assumes "list_all2 (\<lambda>m n. mset (meal_items n) = mset (meal_items m)) (log_meals dl) ms"
    and "mset (log_meals dl') = mset ms"
    and "exact_fields (all_items dl)"
  shows "macro_total_double dl' = macro_total_double dl
         \<and> macro_total_double dl = sum_of_records dl"
proof -
  have items: "mset (all_items dl') = mset (all_items dl)"
    using assms(1,2) by (rule all_items_mset)
  have "exact_fields (all_items dl')"
    using assms(3) exact_fields_mset [OF items] by blast
  then have "macro_total_double dl' = sum_of_records dl'"
    by (rule macro_total_double_exact)
  also have "\<dots> = foldl add_item zero_totals (all_items dl')"
    by (rule sum_of_records_fold)
  also have "\<dots> = foldl add_item zero_totals (all_items dl)"
    using items by (rule foldl_add_item_mset)
  also have "\<dots> = sum_of_records dl"
    by (rule sum_of_records_fold [symmetric])
  finally have "macro_total_double dl' = sum_of_records dl" .
  moreover have "macro_total_double dl = sum_of_records dl"
    using assms(3) by (rule macro_total_double_exact)
  ultimately show ?thesis by simp
qed

theorem macro_total_double_permutation_witness:
  "exact_fields (all_items whole_log)
   \<and> macro_total_double
        (whole_log\<lparr>log_meals :=
           rev (map (\<lambda>m. m\<lparr>meal_items := rev (meal_items m)\<rparr>) (log_meals whole_log))\<rparr>) =
       macro_total_double whole_log
   \<and> macro_total_double whole_log =
       \<lparr>tot_calories = Num 347, tot_protein = Num 34, tot_carbs = Num 42, tot_fat = Num 4,
        tot_oil = Num 20\<rparr>"
proof -
  let ?ms = "map (\<lambda>m. m\<lparr>meal_items := rev (meal_items m)\<rparr>) (log_meals whole_log)"
  have items: "list_all2 (\<lambda>m n. mset (meal_items n) = mset (meal_items m)) (log_meals whole_log) ?ms"
    by (simp add: list_all2_map2 list_all2_same)
  have meals: "mset (log_meals (whole_log\<lparr>log_meals := rev ?ms\<rparr>)) = mset ?ms"
    by simp
  have all: "all_items whole_log =
      [whole_item ''rice'' 130 3 28 0 0, whole_item ''chicken'' 165 31 0 4 20,
       whole_item ''apple'' 52 0 14 0 0]"
    by (simp add: all_items_def whole_log_def)
  have "exact_sums (map (\<lambda>n. Num (real n)) [130, 165, 52])"
    and "exact_sums (map (\<lambda>n. Num (real n)) [3, 31, 0])"
    and "exact_sums (map (\<lambda>n. Num (real n)) [28, 0, 14])"
    and "exact_sums (map (\<lambda>n. Num (real n)) [0, 4, 0])"
    and "exact_sums (map (\<lambda>n. Num (real n)) [0, 20, 0])"
    by (rule exact_sums_whole, simp)+
  then have exact: "exact_fields (all_items whole_log)"
    unfolding all exact_fields_def by (simp add: whole_item_def)
  note inst = macro_total_double_permutation [OF items meals exact]
  have "sum_of_records whole_log =
       \<lparr>tot_calories = Num 347, tot_protein = Num 34, tot_carbs = Num 42, tot_fat = Num 4,
        tot_oil = Num 20\<rparr>"
    unfolding sum_of_records_def all by (simp add: whole_item_def js_sum_def)
  with inst exact show ?thesis by simp
qed

section \<open>The goal evaluator\<close>

lemma getPercent_cases:
  "getPercent val target = NaN \<or> (\<exists>p. getPercent val target = Num p \<and> 0 \<le> p \<and> p \<le> 100)"
proof -
  have "js_min (Num 100) (js_max (Num 0) v) = NaN \<or>
        (\<exists>p. js_min (Num 100) (js_max (Num 0) v) = Num p \<and> 0 \<le> p \<and> p \<le> 100)" for v
    by (cases v) auto
  then show ?thesis unfolding getPercent_def by blast
qed

lemma getPercent_finite:
  "target \<noteq> 0 \<Longrightarrow>
   getPercent (Num v) (Num target) = Num (min 100 (max 0 (v / target * 100)))"
  by (simp add: getPercent_def min_def max_def)

lemma getPercent_NaN_iff:
  "getPercent val target = NaN \<longleftrightarrow> js_mul (js_div val target) (Num 100) = NaN"
proof -
  have "js_min (Num 100) (js_max (Num 0) v) = NaN \<longleftrightarrow> v = NaN" for v
    by (cases v) auto
  then show ?thesis by (simp add: getPercent_def)
qed

lemma carb_ratio_formula:
  "js_gt calories (Num 0) \<Longrightarrow>
   js_mul (js_div (js_mul carbs (Num 4)) calories) (Num 100) =
   js_div (js_mul (Num 100) (js_mul carbs (Num 4))) calories"
  by (cases calories; cases carbs) (auto split: if_splits)

text \<open>
  Claim C4. When the total calories are greater than 0 the carbohydrate-energy ratio
  is \<open>100 * (carbs * 4) / calories\<close>; when they are 0 it is exactly 0 and nothing is
  divided. The ratio is flagged as on target exactly when it is at least 50. The
  clamped display ratio of any value against any target is never less than 0 and
  never greater than 100: it is a number between 0 and 100, or \<open>NaN\<close> (which
  compares as neither), the latter exactly when the scaled quotient is \<open>NaN\<close>
  already, as for 0 over 0.
\<close>

theorem goal_evaluator_ratios:
  "(js_gt (tot_calories t) (Num 0) \<longrightarrow>
      currentCarbRatio t = carb_energy_formula (tot_carbs t) (tot_calories t))
   \<and> (tot_calories t = Num c \<and> tot_carbs t = Num x \<and> 0 < c \<longrightarrow>
      currentCarbRatio t = Num (100 * (x * 4) / c))
   \<and> (tot_calories t = Num 0 \<longrightarrow> currentCarbRatio t = Num 0)
   \<and> (isCarbRatioGood t \<longleftrightarrow> js_ge (currentCarbRatio t) (Num 50))
   \<and> (currentCarbRatio t = Num r \<longrightarrow> (isCarbRatioGood t \<longleftrightarrow> 50 \<le> r))
   \<and> \<not> js_gt (Num 0) (getPercent val target)
   \<and> \<not> js_gt (getPercent val target) (Num 100)
   \<and> (getPercent val target = NaN
        \<or> (\<exists>p. getPercent val target = Num p \<and> 0 \<le> p \<and> p \<le> 100))"
proof (intro conjI impI)
  assume "js_gt (tot_calories t) (Num 0)"
  then show "currentCarbRatio t = carb_energy_formula (tot_carbs t) (tot_calories t)"
    by (simp add: currentCarbRatio_def currentCarbCalories_def carb_energy_formula_def
        carb_ratio_formula)
next
  assume "tot_calories t = Num c \<and> tot_carbs t = Num x \<and> 0 < c"
  then show "currentCarbRatio t = Num (100 * (x * 4) / c)"
    by (simp add: currentCarbRatio_def currentCarbCalories_def)
next
  assume "tot_calories t = Num 0"
  then show "currentCarbRatio t = Num 0"
    by (simp add: currentCarbRatio_def)
next
  show "isCarbRatioGood t \<longleftrightarrow> js_ge (currentCarbRatio t) (Num 50)"
    by (simp add: isCarbRatioGood_def)
next
  assume "currentCarbRatio t = Num r"
  then show "isCarbRatioGood t \<longleftrightarrow> 50 \<le> r"
    by (simp add: isCarbRatioGood_def)
next
  show "\<not> js_gt (Num 0) (getPercent val target)"
    using getPercent_cases [of val target] by auto
  show "\<not> js_gt (getPercent val target) (Num 100)"
    using getPercent_cases [of val target] by auto
  show "getPercent val target = NaN
        \<or> (\<exists>p. getPercent val target = Num p \<and> 0 \<le> p \<and> p \<le> 100)"
    by (rule getPercent_cases)
qed


theorem goal_evaluator_ratios_witness:
  "js_gt (tot_calories scenario_totals) (Num 0)
   \<and> currentCarbRatio scenario_totals = Num (252 / 11)
   \<and> \<not> isCarbRatioGood scenario_totals
   \<and> tot_calories zero_totals = Num 0
   \<and> currentCarbRatio zero_totals = Num 0
   \<and> \<not> js_gt (getPercent (Num 5000) (Num 1350)) (Num 100)"
proof -
  have cal: "tot_calories scenario_totals = Num 220"
    and carbs: "tot_carbs scenario_totals = Num (126 / 10)"
    by (simp_all add: scenario_totals_def)
  note inst = goal_evaluator_ratios
    [of scenario_totals 220 "126 / 10" "252 / 11" "Num 5000" "Num 1350"]
  have pos: "js_gt (tot_calories scenario_totals) (Num 0)"
    by (simp add: cal)
  have "currentCarbRatio scenario_totals = Num (100 * (126 / 10 * 4) / 220)"
    using inst cal carbs by force
  then have ratio: "currentCarbRatio scenario_totals = Num (252 / 11)"
    by simp
  have "isCarbRatioGood scenario_totals \<longleftrightarrow> 50 \<le> (252 / 11 :: real)"
    using inst ratio by blast
  then have bad: "\<not> isCarbRatioGood scenario_totals"
    by simp
  have zero: "tot_calories zero_totals = Num 0"
    by (simp add: zero_totals_def)
  have ratio0: "currentCarbRatio zero_totals = Num 0"
    using goal_evaluator_ratios [of zero_totals 1 1 0 "Num 5000" "Num 1350"] zero by blast
  have bound: "\<not> js_gt (getPercent (Num 5000) (Num 1350)) (Num 100)"
    using inst by blast
  show ?thesis
    using pos ratio bad zero ratio0 bound by blast
qed




section \<open>The item rescaler\<close>

lemma rescale_item_positive:
  "ing_weight item = Num w1 \<Longrightarrow> 0 < w1 \<Longrightarrow>
   rescale_item item newWeight =
     item\<lparr>ing_weight := newWeight,
          ing_calories := js_mul (ing_calories item) (js_div newWeight (Num w1)),
          ing_protein := js_mul (ing_protein item) (js_div newWeight (Num w1)),
          ing_carbs := js_mul (ing_carbs item) (js_div newWeight (Num w1)),
          ing_fat := js_mul (ing_fat item) (js_div newWeight (Num w1)),
          ing_addedOilCalories := js_mul (ing_addedOilCalories item) (js_div newWeight (Num w1))\<rparr>"
  by (simp add: rescale_item_def Let_def)

lemma update_item_weight:
  "ing_id item = itemId \<Longrightarrow>
   update_item num_of_string string_of_num itemId K_weight (VNumber w) item = rescale_item item w"
  by (simp add: update_item_def js_Number_def)

lemma update_item_other_item:
  "ing_id item \<noteq> itemId \<Longrightarrow>
   update_item num_of_string string_of_num itemId field v item = item"
  by (simp add: update_item_def)

lemma js_mul_there_and_back:
  "0 < w1 \<Longrightarrow> 0 < w2 \<Longrightarrow> js_mul (js_mul m (Num (w2 / w1))) (Num (w1 / w2)) = m"
  by (cases m) simp_all

text \<open>
  Claim C2, amended. For a record of weight \<open>w1 > 0\<close> and a new weight \<open>w2 > 0\<close>,
  both finite, the rescaler replaces the weight and multiplies calories, protein,
  carbohydrate, fat and added-oil calories by \<open>w2 / w1\<close>; rescaling the result back
  to \<open>w1\<close> gives the original record again, exactly so in exact arithmetic. The
  rescaler returns a new record and leaves its argument as it was.
\<close>

theorem rescale_round_trip:
  assumes "ing_weight item = Num w1" and "0 < w1" and "0 < w2"
  shows "rescale_item item (Num w2) =
           item\<lparr>ing_weight := Num w2,
                ing_calories := js_mul (ing_calories item) (Num (w2 / w1)),
                ing_protein := js_mul (ing_protein item) (Num (w2 / w1)),
                ing_carbs := js_mul (ing_carbs item) (Num (w2 / w1)),
                ing_fat := js_mul (ing_fat item) (Num (w2 / w1)),
                ing_addedOilCalories := js_mul (ing_addedOilCalories item) (Num (w2 / w1))\<rparr>
         \<and> rescale_item (rescale_item item (Num w2)) (Num w1) = item"
proof
  show there: "rescale_item item (Num w2) =
           item\<lparr>ing_weight := Num w2,
                ing_calories := js_mul (ing_calories item) (Num (w2 / w1)),
                ing_protein := js_mul (ing_protein item) (Num (w2 / w1)),
                ing_carbs := js_mul (ing_carbs item) (Num (w2 / w1)),
                ing_fat := js_mul (ing_fat item) (Num (w2 / w1)),
                ing_addedOilCalories := js_mul (ing_addedOilCalories item) (Num (w2 / w1))\<rparr>"
    using assms by (simp add: rescale_item_positive)
  have "rescale_item (rescale_item item (Num w2)) (Num w1) =
        item\<lparr>ing_weight := Num w1\<rparr>"
    unfolding there using assms
    by (simp add: rescale_item_positive js_mul_there_and_back)
  then show "rescale_item (rescale_item item (Num w2)) (Num w1) = item"
    using assms(1) by (cases item) simp
qed

theorem rescale_round_trip_witness:
  "ing_weight fixed_egg = Num 50
   \<and> rescale_item fixed_egg (Num 100) =
       fixed_egg\<lparr>ing_weight := Num 100, ing_calories := Num 140, ing_protein := Num 12,
                 ing_carbs := Num (12 / 10), ing_fat := Num 10, ing_addedOilCalories := Num 0\<rparr>
   \<and> rescale_item (rescale_item fixed_egg (Num 100)) (Num 50) = fixed_egg"
proof -
  have w: "ing_weight fixed_egg = Num 50"
    by (simp add: fixed_egg_def)
  have fields: "ing_calories fixed_egg = Num 70" "ing_protein fixed_egg = Num 6"
    "ing_carbs fixed_egg = Num (6 / 10)" "ing_fat fixed_egg = Num 5"
    "ing_addedOilCalories fixed_egg = Num 0"
    by (simp_all add: fixed_egg_def)
  have p1: "(0::real) < 50" and p2: "(0::real) < 100"
    by simp_all
  note inst = rescale_round_trip [OF w p1 p2]
  have "rescale_item fixed_egg (Num 100) =
       fixed_egg\<lparr>ing_weight := Num 100, ing_calories := Num 140, ing_protein := Num 12,
                 ing_carbs := Num (12 / 10), ing_fat := Num 10, ing_addedOilCalories := Num 0\<rparr>"
    unfolding inst [THEN conjunct1] by (simp add: fields)
  moreover have "rescale_item (rescale_item fixed_egg (Num 100)) (Num 50) = fixed_egg"
    by (rule inst [THEN conjunct2])
  ultimately show ?thesis using w by blast
qed

text \<open>
  Claim C2 as stated fails for the new weight 0: the egg of 50 g and 70 kcal, rescaled to
  0 g, has 0 kcal; rescaled back to 50 g it has the weight 50 and still 0 kcal, since
  a record of weight 0 keeps its values.
\<close>

theorem rescale_to_zero_counterexample:
  "ing_weight fixed_egg = Num 50
   \<and> ing_calories fixed_egg = Num 70
   \<and> ing_calories (rescale_item (rescale_item fixed_egg (Num 0)) (Num 50)) = Num 0
   \<and> ing_protein (rescale_item (rescale_item fixed_egg (Num 0)) (Num 50)) = Num 0
   \<and> rescale_item (rescale_item fixed_egg (Num 0)) (Num 50) \<noteq> fixed_egg"
proof -
  have returned: "rescale_item (rescale_item fixed_egg (Num 0)) (Num 50) =
    fixed_egg\<lparr>ing_weight := Num 50, ing_calories := Num 0, ing_protein := Num 0,
              ing_carbs := Num 0, ing_fat := Num 0, ing_addedOilCalories := Num 0\<rparr>"
    by (simp add: rescale_item_def fixed_egg_def Let_def)
  have "ing_calories (rescale_item (rescale_item fixed_egg (Num 0)) (Num 50)) \<noteq>
        ing_calories fixed_egg"
    unfolding returned by (simp add: fixed_egg_def)
  then have "rescale_item (rescale_item fixed_egg (Num 0)) (Num 50) \<noteq> fixed_egg"
    by auto
  then show ?thesis
    unfolding returned by (simp add: fixed_egg_def)
qed

text \<open>
  Claim C3. For a record of weight 0 and any new weight (finite or not), the rescaler
  returns the record with the weight replaced and calories, protein, carbohydrate,
  fat and added-oil calories as they were: nothing is divided or multiplied.
\<close>

theorem rescale_zero_weight:
  assumes "ing_weight item = Num 0"
  shows "rescale_item item w2 = item\<lparr>ing_weight := w2\<rparr>
         \<and> ing_weight (rescale_item item w2) = w2
         \<and> ing_calories (rescale_item item w2) = ing_calories item
         \<and> ing_protein (rescale_item item w2) = ing_protein item
         \<and> ing_carbs (rescale_item item w2) = ing_carbs item
         \<and> ing_fat (rescale_item item w2) = ing_fat item
         \<and> ing_addedOilCalories (rescale_item item w2) = ing_addedOilCalories item"
  using assms by (simp add: rescale_item_def Let_def)

theorem rescale_zero_weight_witness:
  "ing_weight (fixed_egg\<lparr>ing_weight := Num 0\<rparr>) = Num 0
   \<and> rescale_item (fixed_egg\<lparr>ing_weight := Num 0\<rparr>) (Num 80) = fixed_egg\<lparr>ing_weight := Num 80\<rparr>
   \<and> ing_calories (rescale_item (fixed_egg\<lparr>ing_weight := Num 0\<rparr>) NaN) = Num 70"
proof -
  have w: "ing_weight (fixed_egg\<lparr>ing_weight := Num 0\<rparr>) = Num 0"
    by simp
  have "rescale_item (fixed_egg\<lparr>ing_weight := Num 0\<rparr>) (Num 80) = fixed_egg\<lparr>ing_weight := Num 80\<rparr>"
    using rescale_zero_weight [OF w, of "Num 80"] by simp
  moreover have "ing_calories (rescale_item (fixed_egg\<lparr>ing_weight := Num 0\<rparr>) NaN) = Num 70"
    using rescale_zero_weight [OF w, of NaN] by (simp add: fixed_egg_def)
  ultimately show ?thesis using w by blast
qed

section \<open>The log store\<close>

lemma default_log_ids:
  "map meal_id (log_meals (default_log now date)) = map (\<lambda>(key, label). key @ ''-'' @ date) MEAL_TYPES"
  by (simp add: default_log_def MEAL_TYPES_def)

text \<open>
  Claim C9. For a date with no stored log, \<open>getDailyLog\<close> returns a log of that date
  with exactly four meals, one per entry of \<open>MEAL_TYPES\<close> (breakfast, lunch, dinner,
  snack) and in that order: the identifier of each is its key, a hyphen and the date,
  so the four are distinct and depend on nothing but the key and the date; its name is
  the label of the key. The breakfast holds the two fixed records (egg and milk), the
  other three meals are empty. The store is left as it was, so a second access finds
  the date absent again and returns the same log with the same identifiers, up to the
  timestamps, which are read from the clock at each access.
\<close>

theorem getDailyLog_first_access:
  assumes "store date = None"
  shows "log_date (fst (getDailyLog now date store)) = date
     \<and> map meal_id (log_meals (fst (getDailyLog now date store))) =
         map (\<lambda>(key, label). key @ ''-'' @ date) MEAL_TYPES
     \<and> map fst MEAL_TYPES = [''breakfast'', ''lunch'', ''dinner'', ''snack'']
     \<and> distinct (map meal_id (log_meals (fst (getDailyLog now date store))))
     \<and> map meal_name (log_meals (fst (getDailyLog now date store))) = map snd MEAL_TYPES
     \<and> map meal_items (log_meals (fst (getDailyLog now date store))) =
         [[fixed_egg, fixed_milk], [], [], []]
     \<and> snd (getDailyLog now date store) = store
     \<and> map meal_id (log_meals (fst (getDailyLog now' date (snd (getDailyLog now date store))))) =
         map meal_id (log_meals (fst (getDailyLog now date store)))
     \<and> fst (getDailyLog now' date (snd (getDailyLog now date store))) =
         (fst (getDailyLog now date store))
           \<lparr>log_meals :=
              map (\<lambda>(m, k). m\<lparr>meal_timestamp := now' k\<rparr>)
                (zip (log_meals (fst (getDailyLog now date store))) [0, 1, 2, 3])\<rparr>"
  using assms
  by (simp add: getDailyLog_def default_log_def MEAL_TYPES_def FIXED_BREAKFAST_ITEMS_def)

theorem getDailyLog_first_access_witness:
  "Map.empty ''2024-05-01'' = (None :: dailyLog option)
   \<and> map meal_id (log_meals (fst (getDailyLog (\<lambda>k. Num 0) ''2024-05-01'' Map.empty))) =
       [''breakfast-2024-05-01'', ''lunch-2024-05-01'', ''dinner-2024-05-01'',
        ''snack-2024-05-01'']
   \<and> snd (getDailyLog (\<lambda>k. Num 0) ''2024-05-01'' Map.empty) = Map.empty"
proof -
  have h: "Map.empty ''2024-05-01'' = (None :: dailyLog option)"
    by simp
  note inst = getDailyLog_first_access [OF h, where now = "\<lambda>k. Num 0" and now' = "\<lambda>k. Num 0"]
  have "map meal_id (log_meals (fst (getDailyLog (\<lambda>k. Num 0) ''2024-05-01'' Map.empty))) =
        map (\<lambda>(key, label). key @ ''-'' @ ''2024-05-01'') MEAL_TYPES"
    using inst by blast
  then have ids: "map meal_id (log_meals (fst (getDailyLog (\<lambda>k. Num 0) ''2024-05-01'' Map.empty))) =
       [''breakfast-2024-05-01'', ''lunch-2024-05-01'', ''dinner-2024-05-01'',
        ''snack-2024-05-01'']"
    by (simp add: MEAL_TYPES_def)
  have "snd (getDailyLog (\<lambda>k. Num 0) ''2024-05-01'' Map.empty) = Map.empty"
    using inst by blast
  with h ids show ?thesis by blast
qed

text \<open>
  Claim C10. After \<open>updateLog\<close> the store holds the new log under the new log's
  date; under every other date it holds what it held before, and no other part of the
  state changes.
\<close>

theorem updateLog_frame:
  "logs (updateLog newLog s) (log_date newLog) = Some newLog
   \<and> (\<forall>d. d \<noteq> log_date newLog \<longrightarrow> logs (updateLog newLog s) d = logs s d)
   \<and> updateLog newLog s = s\<lparr>logs := logs (updateLog newLog s)\<rparr>"
  by (simp add: updateLog_def)

theorem updateLog_frame_witness:
  "''2024-05-01'' \<noteq> log_date (default_log (\<lambda>k. Num 0) ''2024-05-02'')
   \<and> logs (updateLog (default_log (\<lambda>k. Num 0) ''2024-05-02'')
        (initial_state [''2024-05-01'' \<mapsto> default_log (\<lambda>k. Num 1) ''2024-05-01''] ''2024-05-02''))
       ''2024-05-01'' = Some (default_log (\<lambda>k. Num 1) ''2024-05-01'')"
proof -
  let ?new = "default_log (\<lambda>k. Num 0) ''2024-05-02''"
  let ?s = "initial_state [''2024-05-01'' \<mapsto> default_log (\<lambda>k. Num 1) ''2024-05-01''] ''2024-05-02''"
  have h: "''2024-05-01'' \<noteq> log_date ?new"
    by (simp add: default_log_def)
  have "logs (updateLog ?new ?s) ''2024-05-01'' = logs ?s ''2024-05-01''"
    using updateLog_frame [of ?new ?s] h by blast
  then have "logs (updateLog ?new ?s) ''2024-05-01'' = Some (default_log (\<lambda>k. Num 1) ''2024-05-01'')"
    by (simp add: initial_state_def)
  with h show ?thesis by blast
qed


section \<open>The food entry extraction\<close>

lemma rethrow_nonempty: "rethrow msg = Inl m \<Longrightarrow> m \<noteq> []"
  by (auto simp: rethrow_def FALLBACK_MESSAGE_def split: if_splits)

lemma parseFoodEntry_error_nonempty:
  "parseFoodEntry env description img = Inl m \<Longrightarrow> m \<noteq> []"
  by (auto simp: parseFoodEntry_def dest: rethrow_nonempty
      split: sum.splits ai_outcome.splits parsed_result.splits parsed_items.splits)

lemma example_env_client: "getAIClient (env_keys (example_env outcome)) = Inr ''secret''"
  by (simp add: getAIClient_def resolve_api_key_def example_env_def truthy_or_def)

text \<open>
  Claim C6 as stated fails: a response without text, or with the empty text, is not an
  error. It is returned as a successful extraction with no items and the default
  cooking analysis.
\<close>

theorem parseFoodEntry_empty_response_counterexample:
  "parseFoodEntry (example_env (Responded None)) ''rice'' None =
     Inr \<lparr>ext_items = [], ext_cookingAnalysis = DEFAULT_ANALYSIS\<rparr>
   \<and> parseFoodEntry (example_env (Responded (Some []))) ''rice'' None =
     Inr \<lparr>ext_items = [], ext_cookingAnalysis = DEFAULT_ANALYSIS\<rparr>"
  by (simp add: parseFoodEntry_def example_env_client)
    (simp add: example_env_def truthy_or_def)

text \<open>
  Claim C6, amended. Every error \<open>parseFoodEntry\<close> throws carries a non-empty
  message. A missing key, a rejected call, a response text that \<open>JSON.parse\<close>
  rejects, the JSON value \<open>null\<close> and an \<open>items\<close> value that is not an array are
  such errors, carrying the underlying message, or the fixed fallback text when that
  message is empty. A missing or empty response text is parsed as \<open>{}\<close>; a parsed
  value without \<open>items\<close> is a successful result with an empty item list, and a
  missing or empty \<open>cookingAnalysis\<close> is replaced by the default analysis text.
  Nothing else of the response is validated.
\<close>

theorem parseFoodEntry_outcomes:
  "(parseFoodEntry env description img = Inl cause \<longrightarrow> cause \<noteq> [])
   \<and> (getAIClient (env_keys env) = Inl cause \<longrightarrow>
        parseFoodEntry env description img = Inl MISSING_KEY_MESSAGE)
   \<and> (getAIClient (env_keys env) = Inr ai
       \<and> env_generateContent env ai
            \<lparr>req_image = map_option base64Data (truthy_string img),
             req_description = description\<rparr> = outcome \<longrightarrow>
        (outcome = Rejected cause \<longrightarrow>
           parseFoodEntry env description img =
             Inl (if cause \<noteq> [] then cause else FALLBACK_MESSAGE))
        \<and> (outcome = Responded rtext
            \<and> env_JSON_parse env (truthy_or rtext ''{}'') = Inl cause \<longrightarrow>
           parseFoodEntry env description img =
             Inl (if cause \<noteq> [] then cause else FALLBACK_MESSAGE))
        \<and> (outcome = Responded rtext
            \<and> env_JSON_parse env (truthy_or rtext ''{}'') = Inr ResultNull \<longrightarrow>
           parseFoodEntry env description img = Inl TYPE_ERROR_NULL)
        \<and> (outcome = Responded rtext
            \<and> env_JSON_parse env (truthy_or rtext ''{}'') =
                Inr (ResultValue ItemsNotArray analysis) \<longrightarrow>
           parseFoodEntry env description img = Inl TYPE_ERROR_MAP)
        \<and> (outcome = Responded rtext
            \<and> env_JSON_parse env (truthy_or rtext ''{}'') =
                Inr (ResultValue ItemsAbsent analysis) \<longrightarrow>
           parseFoodEntry env description img =
             Inr \<lparr>ext_items = [],
                  ext_cookingAnalysis = truthy_or analysis DEFAULT_ANALYSIS\<rparr>)
        \<and> (outcome = Responded rtext
            \<and> env_JSON_parse env (truthy_or rtext ''{}'') =
                Inr (ResultValue (ItemsArray xs) analysis) \<longrightarrow>
           parseFoodEntry env description img =
             Inr \<lparr>ext_items = with_ids (env_fresh_id env) xs,
                  ext_cookingAnalysis = truthy_or analysis DEFAULT_ANALYSIS\<rparr>))
   \<and> truthy_or None ''{}'' = ''{}'' \<and> truthy_or (Some []) ''{}'' = ''{}''
   \<and> truthy_or None DEFAULT_ANALYSIS = DEFAULT_ANALYSIS
   \<and> truthy_or (Some []) DEFAULT_ANALYSIS = DEFAULT_ANALYSIS"
proof (intro conjI impI)
  assume "parseFoodEntry env description img = Inl cause"
  then show "cause \<noteq> []" by (rule parseFoodEntry_error_nonempty)
next
  assume "getAIClient (env_keys env) = Inl cause"
  then show "parseFoodEntry env description img = Inl MISSING_KEY_MESSAGE"
    by (auto simp: parseFoodEntry_def getAIClient_def rethrow_def MISSING_KEY_MESSAGE_def
        split: if_splits)
qed (simp_all add: parseFoodEntry_def rethrow_def truthy_or_def TYPE_ERROR_NULL_def
    TYPE_ERROR_MAP_def)


theorem parseFoodEntry_outcomes_witness:
  "parseFoodEntry (example_env (Rejected ''Network error'')) ''rice'' None = Inl ''Network error''
   \<and> parseFoodEntry (example_env (Responded (Some ''not json''))) ''rice'' None =
       Inl ''Unexpected token''
   \<and> parseFoodEntry (example_env (Responded (Some []))) ''rice'' None =
       Inr \<lparr>ext_items = [], ext_cookingAnalysis = DEFAULT_ANALYSIS\<rparr>"
proof -
  let ?req = "\<lparr>req_image = map_option base64Data (truthy_string None), req_description = ''rice''\<rparr>"
  have gen: "env_generateContent (example_env outcome) ''secret'' ?req = outcome" for outcome
    by (simp add: example_env_def)
  have bad: "env_JSON_parse (example_env (Responded (Some ''not json'')))
               (truthy_or (Some ''not json'') ''{}'') = Inl ''Unexpected token''"
    by (simp add: example_env_def truthy_or_def)
  have empty: "env_JSON_parse (example_env (Responded (Some [])))
               (truthy_or (Some []) ''{}'') = Inr (ResultValue ItemsAbsent None)"
    by (simp add: example_env_def truthy_or_def)
  have "parseFoodEntry (example_env (Rejected ''Network error'')) ''rice'' None =
        Inl (if ''Network error'' \<noteq> [] then ''Network error'' else FALLBACK_MESSAGE)"
    using parseFoodEntry_outcomes
      [where env = "example_env (Rejected ''Network error'')" and description = "''rice''"
        and img = None and ai = "''secret''" and outcome = "Rejected ''Network error''"
        and cause = "''Network error''"]
      example_env_client gen
    by blast
  then have a: "parseFoodEntry (example_env (Rejected ''Network error'')) ''rice'' None =
        Inl ''Network error''"
    by simp
  have "parseFoodEntry (example_env (Responded (Some ''not json''))) ''rice'' None =
        Inl (if ''Unexpected token'' \<noteq> [] then ''Unexpected token'' else FALLBACK_MESSAGE)"
    using parseFoodEntry_outcomes
      [where env = "example_env (Responded (Some ''not json''))" and description = "''rice''"
        and img = None and ai = "''secret''" and outcome = "Responded (Some ''not json'')"
        and cause = "''Unexpected token''" and rtext = "Some ''not json''"]
      example_env_client gen bad
    by blast
  then have b: "parseFoodEntry (example_env (Responded (Some ''not json''))) ''rice'' None =
        Inl ''Unexpected token''"
    by simp
  have "parseFoodEntry (example_env (Responded (Some []))) ''rice'' None =
        Inr \<lparr>ext_items = [], ext_cookingAnalysis = truthy_or None DEFAULT_ANALYSIS\<rparr>"
    using parseFoodEntry_outcomes
      [where env = "example_env (Responded (Some []))" and description = "''rice''"
        and img = None and ai = "''secret''" and outcome = "Responded (Some [])"
        and rtext = "Some []" and analysis = None]
      example_env_client gen empty
    by blast
  then have c: "parseFoodEntry (example_env (Responded (Some []))) ''rice'' None =
       Inr \<lparr>ext_items = [], ext_cookingAnalysis = DEFAULT_ANALYSIS\<rparr>"
    by (simp add: truthy_or_def)
  from a b c show ?thesis by blast
qed

text \<open>
  Claim C7. When \<open>handleAddFood\<close> makes an extraction attempt and \<open>parseFoodEntry\<close>
  throws, the store of logs is left exactly as it was, and with it the current log,
  every meal and every item list and cooking note; the input is kept; one alert is
  shown, holding the non-empty message of the one error thrown; and processing is
  marked as finished.
\<close>

theorem handleAddFood_failure:
  assumes "\<not> (env_trim env (input_text s) = [] \<and> truthy_string (input_image s) = None)"
    and "parseFoodEntry env (input_text s) (truthy_string (input_image s)) = Inl cause"
  shows "logs (handleAddFood env mealTypeKey mealId s) = logs s
     \<and> currentLog now (handleAddFood env mealTypeKey mealId s) = currentLog now s
     \<and> alerts (handleAddFood env mealTypeKey mealId s) = alerts s @ [ALERT_PREFIX @ cause]
     \<and> cause \<noteq> []
     \<and> handleAddFood env mealTypeKey mealId s =
         s\<lparr>alerts := alerts s @ [ALERT_PREFIX @ cause], isProcessing := False\<rparr>"
proof -
  have step: "handleAddFood env mealTypeKey mealId s =
         s\<lparr>alerts := alerts s @ [ALERT_PREFIX @ cause], isProcessing := False\<rparr>"
    using assms by (auto simp: handleAddFood_def)
  have "cause \<noteq> []"
    using assms(2) by (rule parseFoodEntry_error_nonempty)
  then show ?thesis
    unfolding step by (simp add: currentLog_def)
qed

theorem handleAddFood_failure_witness:
  "\<not> (env_trim (example_env (Rejected ''Network error'')) (input_text offline_state) = []
       \<and> truthy_string (input_image offline_state) = None)
   \<and> parseFoodEntry (example_env (Rejected ''Network error'')) (input_text offline_state)
         (truthy_string (input_image offline_state)) = Inl ''Network error''
   \<and> logs (handleAddFood (example_env (Rejected ''Network error'')) ''lunch''
         ''lunch-2024-05-01'' offline_state) = logs offline_state
   \<and> alerts (handleAddFood (example_env (Rejected ''Network error'')) ''lunch''
         ''lunch-2024-05-01'' offline_state) = [ALERT_PREFIX @ ''Network error'']"
proof -
  let ?env = "example_env (Rejected ''Network error'')"
  have attempt: "\<not> (env_trim ?env (input_text offline_state) = []
       \<and> truthy_string (input_image offline_state) = None)"
    by (simp add: example_env_def offline_state_def initial_state_def ascii_trim_def)
  have fails: "parseFoodEntry ?env (input_text offline_state)
         (truthy_string (input_image offline_state)) = Inl ''Network error''"
    by (simp add: parseFoodEntry_def example_env_client)
      (simp add: example_env_def rethrow_def)
  note inst = handleAddFood_failure [OF attempt fails, where now = "\<lambda>k. Num 0"
      and mealTypeKey = "''lunch''" and mealId = "''lunch-2024-05-01''"]
  have "alerts offline_state = []"
    by (simp add: offline_state_def initial_state_def)
  with inst have "alerts (handleAddFood ?env ''lunch'' ''lunch-2024-05-01'' offline_state) =
      [ALERT_PREFIX @ ''Network error'']"
    by simp
  with attempt fails inst show ?thesis by blast
qed

end
